theory Spec2Isabelle
  imports Complex_Main
begin

section \<open>Shared data: detections, errors, configuration\<close>

text \<open>
  The program passes detections around as Python dictionaries. A detection is modelled as a
  record whose fields are the dictionary keys (prefixed \<open>det_\<close>); a key that a producer may
  leave out is an \<open>option\<close> field, \<open>None\<close> standing for the absent key (and for the Python
  value \<open>None\<close>, which the readers of these keys treat alike). Pixel coordinates and areas
  are integers; confidences, distances in metres and time stamps are Python floats and are
  modelled as real numbers, so the arithmetic below is the exact arithmetic that the
  floating-point code approximates, on numbers within the range of the floats.
\<close>

datatype py_error = ZeroDivisionError | IndexError | KeyError

text \<open>
  The integers of a detection come in two kinds. The detector computes the box with
  \<open>astype(int)\<close>, so the \<open>area\<close> of its detections is a numpy integer; a dictionary written
  by hand, as in the runner's demonstration objects, holds Python integers. The two kinds
  differ in the one operation the code applies to an area without a guard, the true division
  \<open>area / n\<close> by a Python integer \<open>n\<close>: for \<open>n = 0\<close> the Python integer raises
  \<open>ZeroDivisionError\<close>, while the numpy integer raises nothing (it warns) and yields the
  float \<open>inf\<close>, \<open>-inf\<close> or \<open>nan\<close>, by the sign of the area. The functions that divide an area
  take the kind of the area values as their first argument, and the quotient is a float that
  may be one of these three.
\<close>

datatype number_kind = Python_int | Numpy_int

datatype pyfloat = Finite real | PosInf | NegInf | NaN

definition true_divide :: "number_kind \<Rightarrow> int \<Rightarrow> int \<Rightarrow> py_error + pyfloat" where
  "true_divide k a n =
     (if n \<noteq> 0 then Inr (Finite (real_of_int a / real_of_int n))
      else case k of
             Python_int \<Rightarrow> Inl ZeroDivisionError
           | Numpy_int \<Rightarrow> Inr (if a > 0 then PosInf else if a < 0 then NegInf else NaN))"

text \<open>Comparison of such a float with a finite number: every comparison with \<open>nan\<close> is false.\<close>

fun pyfloat_ge :: "pyfloat \<Rightarrow> real \<Rightarrow> bool" where
  "pyfloat_ge (Finite x) t = (x \<ge> t)"
| "pyfloat_ge PosInf t = True"
| "pyfloat_ge NegInf t = False"
| "pyfloat_ge NaN t = False"

fun pyfloat_gt :: "pyfloat \<Rightarrow> real \<Rightarrow> bool" where
  "pyfloat_gt (Finite x) t = (x > t)"
| "pyfloat_gt PosInf t = True"
| "pyfloat_gt NegInf t = False"
| "pyfloat_gt NaN t = False"

text \<open>The product with a finite number.\<close>

fun pyfloat_times :: "pyfloat \<Rightarrow> real \<Rightarrow> pyfloat" where
  "pyfloat_times (Finite x) c = Finite (x * c)"
| "pyfloat_times PosInf c = (if c > 0 then PosInf else if c < 0 then NegInf else NaN)"
| "pyfloat_times NegInf c = (if c > 0 then NegInf else if c < 0 then PosInf else NaN)"
| "pyfloat_times NaN c = NaN"

type_synonym box = "int \<times> int \<times> int \<times> int"

record detection =
  det_class_id :: int
  det_class_name :: string
  det_confidence :: real
  det_bbox :: box
  det_center :: "int \<times> int"
  det_width :: int
  det_height :: int
  det_area :: int
  det_distance_meters :: "real option"
  det_urgency :: "int option"
  det_distance_level :: "string option"
  det_track_id :: "int option"
  det_should_alert :: "bool option"
  det_should_distance_alert :: "bool option"
  det_is_stable :: "bool option"
  det_age :: "real option"
  det_consecutive_detections :: "int option"
  det_alert_count :: "int option"

text \<open>The detector (\<open>object_detector.py\<close>) builds a detection from a class and a box.\<close>

definition make_detection :: "int \<Rightarrow> string \<Rightarrow> real \<Rightarrow> box \<Rightarrow> detection" where
  "make_detection cid cname conf b =
     (case b of (x1, y1, x2, y2) \<Rightarrow>
        \<lparr> det_class_id = cid, det_class_name = cname, det_confidence = conf,
          det_bbox = (x1, y1, x2, y2),
          det_center = ((x1 + x2) div 2, (y1 + y2) div 2),
          det_width = x2 - x1, det_height = y2 - y1,
          det_area = (x2 - x1) * (y2 - y1),
          det_distance_meters = None, det_urgency = None, det_distance_level = None,
          det_track_id = None, det_should_alert = None, det_should_distance_alert = None,
          det_is_stable = None, det_age = None, det_consecutive_detections = None,
          det_alert_count = None \<rparr>)"

text \<open>The settings of \<open>config.py\<close> that the modelled code reads.\<close>

record config =
  ALERT_INTERVAL :: real
  DIRECTION_ALERT_INTERVAL :: real
  GENERAL_ANNOUNCE_INTERVAL :: real
  MAX_ALERT_QUEUE_SIZE :: nat
  MAX_OBJECTS_PER_ZONE :: nat

definition default_config :: config where
  "default_config =
     \<lparr> ALERT_INTERVAL = 10, DIRECTION_ALERT_INTERVAL = 10, GENERAL_ANNOUNCE_INTERVAL = 10,
       MAX_ALERT_QUEUE_SIZE = 10, MAX_OBJECTS_PER_ZONE = 3 \<rparr>"

section \<open>Risk classifier (\<open>distance_checker.py\<close>)\<close>

record thresholds =
  very_close :: real
  close :: real
  medium :: real

definition distance_thresholds :: "(string \<times> thresholds) list" where
  "distance_thresholds =
     [(''person'',     \<lparr> very_close = 15/100, close = 8/100,  medium = 4/100 \<rparr>),
      (''car'',        \<lparr> very_close = 25/100, close = 15/100, medium = 8/100 \<rparr>),
      (''bicycle'',    \<lparr> very_close = 12/100, close = 6/100,  medium = 3/100 \<rparr>),
      (''motorcycle'', \<lparr> very_close = 12/100, close = 6/100,  medium = 3/100 \<rparr>),
      (''bus'',        \<lparr> very_close = 35/100, close = 25/100, medium = 15/100 \<rparr>),
      (''truck'',      \<lparr> very_close = 35/100, close = 25/100, medium = 15/100 \<rparr>),
      (''default'',    \<lparr> very_close = 12/100, close = 6/100,  medium = 3/100 \<rparr>)]"

text \<open>\<open>self.distance_thresholds.get(class_name, self.distance_thresholds['default'])\<close>\<close>

definition thresholds_for :: "string \<Rightarrow> thresholds" where
  "thresholds_for cname =
     (case map_of distance_thresholds cname of
        Some t \<Rightarrow> t
      | None \<Rightarrow> \<lparr> very_close = 12/100, close = 6/100, medium = 3/100 \<rparr>)"

record distance_info =
  relative_size :: pyfloat
  distance_level :: string
  is_close :: bool
  urgency :: int
  size_percentage :: pyfloat

text \<open>
  \<open>relative_size = object_area / frame_area\<close> is a true division without a guard: what a frame
  area of zero does depends on the kind of the area, as described above.
\<close>

definition calculate_distance_info ::
  "number_kind \<Rightarrow> detection \<Rightarrow> int \<Rightarrow> py_error + distance_info" where
  "calculate_distance_info k detection frame_area =
     (case true_divide k (det_area detection) frame_area of
        Inl e \<Rightarrow> Inl e
      | Inr q \<Rightarrow>
        let relative_size = q;
            thresholds = thresholds_for (det_class_name detection)
        in Inr
          (if pyfloat_ge relative_size (very_close thresholds) then
             \<lparr> relative_size = relative_size, distance_level = ''very_close'',
               is_close = True, urgency = 3,
               size_percentage = pyfloat_times relative_size 100 \<rparr>
           else if pyfloat_ge relative_size (close thresholds) then
             \<lparr> relative_size = relative_size, distance_level = ''close'',
               is_close = True, urgency = 2,
               size_percentage = pyfloat_times relative_size 100 \<rparr>
           else if pyfloat_ge relative_size (medium thresholds) then
             \<lparr> relative_size = relative_size, distance_level = ''medium'',
               is_close = True, urgency = 1,
               size_percentage = pyfloat_times relative_size 100 \<rparr>
           else
             \<lparr> relative_size = relative_size, distance_level = ''far'',
               is_close = False, urgency = 0,
               size_percentage = pyfloat_times relative_size 100 \<rparr>))"

section \<open>Multi-object tracker (\<open>object_tracker.py\<close>)\<close>

subsection \<open>\<open>TrackedObject\<close>\<close>

text \<open>
  The attributes of the class, under their own names. Every method that reads the clock
  (\<open>time.time()\<close>) takes the current time as the argument \<open>now\<close>; a method that mutates
  the object returns the new object.
\<close>

record tracked_object =
  track_id :: int
  class_id :: int
  class_name :: string
  positions :: "(int \<times> int) list"
  bboxes :: "box list"
  areas :: "int list"
  confidences :: "real list"
  first_seen :: real
  last_seen :: real
  last_alert_time :: real
  consecutive_detections :: int
  missed_frames :: int
  is_stable :: bool
  min_stable_frames :: int
  distances :: "real list"
  distance_history :: "real list"
  alert_count :: int
  last_distance_alert :: real

definition tracked_object_init :: "detection \<Rightarrow> int \<Rightarrow> real \<Rightarrow> tracked_object" where
  "tracked_object_init detection tid now =
     \<lparr> track_id = tid,
       class_id = det_class_id detection,
       class_name = det_class_name detection,
       positions = [det_center detection],
       bboxes = [det_bbox detection],
       areas = [det_area detection],
       confidences = [det_confidence detection],
       first_seen = now,
       last_seen = now,
       last_alert_time = 0,
       consecutive_detections = 1,
       missed_frames = 0,
       is_stable = False,
       min_stable_frames = 3,
       distances = [],
       distance_history = [],
       alert_count = 0,
       last_distance_alert = 0 \<rparr>"

text \<open>\<open>xs.append(x); if len(xs) > n: xs.pop(0)\<close>\<close>

definition append_bounded :: "nat \<Rightarrow> 'a list \<Rightarrow> 'a \<Rightarrow> 'a list" where
  "append_bounded n xs x = (let ys = xs @ [x] in if length ys > n then tl ys else ys)"

definition tracked_object_update :: "tracked_object \<Rightarrow> detection \<Rightarrow> real \<Rightarrow> tracked_object" where
  "tracked_object_update t detection now =
     (let hits = consecutive_detections t + 1 in
      t \<lparr> positions := append_bounded 10 (positions t) (det_center detection),
          bboxes := append_bounded 10 (bboxes t) (det_bbox detection),
          areas := append_bounded 10 (areas t) (det_area detection),
          confidences := append_bounded 10 (confidences t) (det_confidence detection),
          last_seen := now,
          consecutive_detections := hits,
          missed_frames := 0,
          is_stable := (if hits \<ge> min_stable_frames t then True else is_stable t),
          distances :=
            (case det_distance_meters detection of
               Some m \<Rightarrow> append_bounded 5 (distances t) m
             | None \<Rightarrow> distances t) \<rparr>)"

definition miss_frame :: "tracked_object \<Rightarrow> tracked_object" where
  "miss_frame t = t \<lparr> missed_frames := missed_frames t + 1, consecutive_detections := 0 \<rparr>"

text \<open>
  \<open>get_current_detection\<close> returns \<open>None\<close> for an object without positions. The constructor
  and \<open>update\<close> keep the four histories non-empty and of one length, so the reads of the last
  element and the average below are the ones the source performs.
\<close>

definition get_current_detection :: "tracked_object \<Rightarrow> real \<Rightarrow> detection option" where
  "get_current_detection t now =
     (if positions t = [] then None
      else
        let avg_confidence = sum_list (confidences t) / real (length (confidences t));
            current_bbox = last (bboxes t);
            current_center = last (positions t);
            current_area = last (areas t);
            avg_distance =
              (if distances t = [] then None
               else Some (sum_list (distances t) / real (length (distances t))))
        in Some
          \<lparr> det_class_id = class_id t, det_class_name = class_name t,
            det_confidence = avg_confidence,
            det_bbox = current_bbox, det_center = current_center,
            det_width = (case current_bbox of (x1, y1, x2, y2) \<Rightarrow> x2 - x1),
            det_height = (case current_bbox of (x1, y1, x2, y2) \<Rightarrow> y2 - y1),
            det_area = current_area,
            det_distance_meters = avg_distance,
            det_urgency = None, det_distance_level = None,
            det_track_id = Some (track_id t),
            det_should_alert = None, det_should_distance_alert = None,
            det_is_stable = Some (is_stable t),
            det_age = Some (now - first_seen t),
            det_consecutive_detections = Some (consecutive_detections t),
            det_alert_count = Some (alert_count t) \<rparr>)"

text \<open>The two throttle queries return their answer together with the object as they leave it.\<close>

definition should_alert :: "tracked_object \<Rightarrow> real \<Rightarrow> real \<Rightarrow> bool \<times> tracked_object" where
  "should_alert t alert_interval now =
     (if \<not> is_stable t then (False, t)
      else if now - last_alert_time t \<ge> alert_interval then
        (True, t \<lparr> last_alert_time := now, alert_count := alert_count t + 1 \<rparr>)
      else (False, t))"

definition distance_interval :: "real \<Rightarrow> real \<Rightarrow> real" where
  "distance_interval avg_distance distance_alert_interval =
     (if avg_distance < 3 then distance_alert_interval / 2
      else if avg_distance < 6 then distance_alert_interval
      else distance_alert_interval * 2)"

definition should_distance_alert :: "tracked_object \<Rightarrow> real \<Rightarrow> real \<Rightarrow> bool \<times> tracked_object" where
  "should_distance_alert t distance_alert_interval now =
     (if \<not> is_stable t \<or> distances t = [] then (False, t)
      else
        let avg_distance = sum_list (distances t) / real (length (distances t));
            interval = distance_interval avg_distance distance_alert_interval
        in if now - last_distance_alert t \<ge> interval then
             (True, t \<lparr> last_distance_alert := now \<rparr>)
           else (False, t))"

text \<open>The default of the parameter \<open>distance_alert_interval\<close>.\<close>

definition default_distance_alert_interval :: real where
  "default_distance_alert_interval = 5"

definition is_expired :: "tracked_object \<Rightarrow> real \<Rightarrow> int \<Rightarrow> real \<Rightarrow> bool" where
  "is_expired t max_age max_missed now =
     (let age_expired = (now - last_seen t > max_age);
          missed_expired = (missed_frames t > max_missed)
      in age_expired \<or> missed_expired)"

subsection \<open>\<open>ObjectTracker\<close>\<close>

text \<open>
  \<open>tracked_objects\<close> is a Python dictionary from track id to object; the code iterates over
  it, so it is modelled as an association list in insertion order.
\<close>

record object_tracker =
  tracked_objects :: "(int \<times> tracked_object) list"
  next_track_id :: int
  max_distance_threshold :: real

definition object_tracker_init :: object_tracker where
  "object_tracker_init =
     \<lparr> tracked_objects = [], next_track_id = 1, max_distance_threshold = 100 \<rparr>"

definition calculate_iou :: "box \<Rightarrow> box \<Rightarrow> real" where
  "calculate_iou box1 box2 =
     (case box1 of (x1_1, y1_1, x2_1, y2_1) \<Rightarrow>
      case box2 of (x1_2, y1_2, x2_2, y2_2) \<Rightarrow>
        let x1_i = max x1_1 x1_2;
            y1_i = max y1_1 y1_2;
            x2_i = min x2_1 x2_2;
            y2_i = min y2_1 y2_2
        in if x2_i \<le> x1_i \<or> y2_i \<le> y1_i then 0
           else
             let intersection = (x2_i - x1_i) * (y2_i - y1_i);
                 area1 = (x2_1 - x1_1) * (y2_1 - y1_1);
                 area2 = (x2_2 - x1_2) * (y2_2 - y1_2);
                 union = area1 + area2 - intersection
             in if union > 0 then real_of_int intersection / real_of_int union else 0)"

definition calculate_distance :: "int \<times> int \<Rightarrow> int \<times> int \<Rightarrow> real" where
  "calculate_distance center1 center2 =
     sqrt (real_of_int ((fst center1 - fst center2)\<^sup>2 + (snd center1 - snd center2)\<^sup>2))"

definition typical_areas :: "(string \<times> int) list" where
  "typical_areas =
     [(''person'', 50000), (''car'', 80000), (''bicycle'', 25000),
      (''motorcycle'', 30000), (''bus'', 120000), (''truck'', 100000)]"

definition estimate_distance :: "detection \<Rightarrow> real" where
  "estimate_distance detection =
     (case map_of typical_areas (det_class_name detection) of
        Some typical_area \<Rightarrow>
          let estimated_distance =
                sqrt (real_of_int typical_area / real_of_int (max (det_area detection) 1000)) * 3
          in max 1 (min 50 estimated_distance)
      | None \<Rightarrow> 5)"

text \<open>One entry of the similarity matrix: a detection against a tracked object.\<close>

definition similarity :: "object_tracker \<Rightarrow> detection \<Rightarrow> tracked_object \<Rightarrow> real \<Rightarrow> real" where
  "similarity tr detection tracked_obj now =
     (case get_current_detection tracked_obj now of
        None \<Rightarrow> 0
      | Some last_detection \<Rightarrow>
          if det_class_id detection = det_class_id last_detection then
            let iou = calculate_iou (det_bbox detection) (det_bbox last_detection);
                distance = calculate_distance (det_center detection) (det_center last_detection);
                distance_similarity = max 0 (1 - distance / max_distance_threshold tr)
            in iou * (7/10) + distance_similarity * (3/10)
          else 0)"

text \<open>
  The inner loop of the greedy assignment: over one row of the matrix, paired with the track
  ids, it keeps the best similarity above the running bound and the index where it stands
  (\<open>-1\<close> while there is none). A later track replaces the current best only when strictly
  more similar.
\<close>

fun best_track :: "(int \<times> real) list \<Rightarrow> int list \<Rightarrow> int \<Rightarrow> real \<times> int \<Rightarrow> real \<times> int" where
  "best_track [] used_tracks j best = best"
| "best_track ((tid, sim) # row) used_tracks j (best_similarity, best_track_idx) =
     (if tid \<notin> set used_tracks \<and> sim > best_similarity
      then best_track row used_tracks (j + 1) (sim, j)
      else best_track row used_tracks (j + 1) (best_similarity, best_track_idx))"

record matching =
  matches :: "(nat \<times> int) list"
  unmatched_detections :: "nat list"
  unmatched_tracks :: "int list"

text \<open>
  The outer loop, over the detections with their indices. The state is the set of used
  tracks and the three results. \<open>remove1\<close> is Python's \<open>list.remove\<close> of a present element.
\<close>

fun greedy_match ::
  "object_tracker \<Rightarrow> real \<Rightarrow> (nat \<times> detection) list \<Rightarrow> int list \<times> matching \<Rightarrow> int list \<times> matching"
where
  "greedy_match tr now [] st = st"
| "greedy_match tr now ((i, detection) # rest) (used_tracks, m) =
     (let row = map (\<lambda>(tid, obj). (tid, similarity tr detection obj now)) (tracked_objects tr);
          best_track_idx = snd (best_track row used_tracks 0 (3/10, -1))
      in if best_track_idx \<ge> 0 then
           let tid = map fst (tracked_objects tr) ! nat best_track_idx
           in greedy_match tr now rest
                (tid # used_tracks,
                 m \<lparr> matches := matches m @ [(i, tid)],
                     unmatched_tracks :=
                       (if tid \<in> set (unmatched_tracks m) then remove1 tid (unmatched_tracks m)
                        else unmatched_tracks m) \<rparr>)
         else
           greedy_match tr now rest
             (used_tracks, m \<lparr> unmatched_detections := unmatched_detections m @ [i] \<rparr>))"

definition match_detections :: "object_tracker \<Rightarrow> detection list \<Rightarrow> real \<Rightarrow> matching" where
  "match_detections tr detections now =
     (let start = \<lparr> matches = [], unmatched_detections = [],
                    unmatched_tracks = map fst (tracked_objects tr) \<rparr>
      in if detections = [] then start
         else snd (greedy_match tr now (zip [0 ..< length detections] detections) ([], start)))"

text \<open>Assignment to one key of the dictionary: \<open>d[k] = f(d[k])\<close>.\<close>

definition modify_track ::
  "int \<Rightarrow> (tracked_object \<Rightarrow> tracked_object) \<Rightarrow> (int \<times> tracked_object) list
     \<Rightarrow> (int \<times> tracked_object) list" where
  "modify_track tid f table = map (\<lambda>(k, obj). if k = tid then (k, f obj) else (k, obj)) table"

text \<open>
  \<open>ObjectTracker.update\<close> up to the removal of expired tracks: distance estimates, matching,
  update of the matched tracks, a new track per unmatched detection, a missed frame for every
  unmatched track.
\<close>

definition with_distance :: "detection \<Rightarrow> detection" where
  "with_distance detection =
     (case det_distance_meters detection of
        None \<Rightarrow> detection \<lparr> det_distance_meters := Some (estimate_distance detection) \<rparr>
      | Some m \<Rightarrow> detection)"

definition create_track :: "detection list \<Rightarrow> real \<Rightarrow> object_tracker \<Rightarrow> nat \<Rightarrow> object_tracker" where
  "create_track detections now tr det_idx =
     tr \<lparr> tracked_objects :=
            tracked_objects tr @
              [(next_track_id tr, tracked_object_init (detections ! det_idx) (next_track_id tr) now)],
          next_track_id := next_track_id tr + 1 \<rparr>"

definition advance_tracks :: "object_tracker \<Rightarrow> detection list \<Rightarrow> real \<Rightarrow> object_tracker" where
  "advance_tracks tr detections0 now =
     (let detections = map with_distance detections0;
          matching_result = match_detections tr detections now;
          tr1 = tr \<lparr> tracked_objects :=
                       foldl (\<lambda>table (det_idx, tid).
                                modify_track tid
                                  (\<lambda>obj. tracked_object_update obj (detections ! det_idx) now) table)
                             (tracked_objects tr) (matches matching_result) \<rparr>;
          tr2 = foldl (create_track detections now) tr1 (unmatched_detections matching_result);
          tr3 = tr2 \<lparr> tracked_objects :=
                        foldl (\<lambda>table tid. modify_track tid miss_frame table)
                              (tracked_objects tr2) (unmatched_tracks matching_result) \<rparr>
      in tr3)"

text \<open>
  The whole of \<open>ObjectTracker.update\<close>: it then deletes every track for which \<open>is_expired()\<close>
  (defaults: 5 seconds, 10 frames) holds and returns the current detection of each stable
  track, with the tracker as it leaves it. One time \<open>now\<close> stands for the clock readings of
  one call.
\<close>

definition object_tracker_update ::
  "object_tracker \<Rightarrow> detection list \<Rightarrow> real \<Rightarrow> detection list \<times> object_tracker" where
  "object_tracker_update tr detections now =
     (let tr3 = advance_tracks tr detections now;
          tr4 = tr3 \<lparr> tracked_objects :=
                        filter (\<lambda>(tid, obj). \<not> is_expired obj 5 10 now) (tracked_objects tr3) \<rparr>;
          stable_objects =
            List.map_filter (\<lambda>(tid, obj). get_current_detection obj now)
              (filter (\<lambda>(tid, obj). is_stable obj) (tracked_objects tr4))
      in (stable_objects, tr4))"

text \<open>
  \<open>get_objects_for_alerts\<close>: the distance throttle is queried, with its default interval,
  only for an object whose general throttle has just accepted.
\<close>

fun alerts_loop ::
  "config \<Rightarrow> real \<Rightarrow> (int \<times> tracked_object) list
     \<Rightarrow> detection list \<times> (int \<times> tracked_object) list" where
  "alerts_loop cfg now [] = ([], [])"
| "alerts_loop cfg now ((tid, obj) # rest) =
     (let (accept, obj1) = should_alert obj (ALERT_INTERVAL cfg) now;
          (found, obj2) =
            (if accept then
               (case get_current_detection obj1 now of
                  None \<Rightarrow> ([], obj1)
                | Some detection \<Rightarrow>
                    let (dist_accept, obj') =
                          should_distance_alert obj1 default_distance_alert_interval now
                    in ([detection \<lparr> det_should_alert := Some True,
                                      det_should_distance_alert := Some dist_accept \<rparr>], obj'))
             else ([], obj1));
          (alert_objects, rest') = alerts_loop cfg now rest
      in (found @ alert_objects, (tid, obj2) # rest'))"

definition get_objects_for_alerts ::
  "config \<Rightarrow> object_tracker \<Rightarrow> real \<Rightarrow> detection list \<times> object_tracker" where
  "get_objects_for_alerts cfg tr now =
     (let (alert_objects, table) = alerts_loop cfg now (tracked_objects tr)
      in (alert_objects, tr \<lparr> tracked_objects := table \<rparr>))"

section \<open>Zone navigation (\<open>navigation_guide.py\<close>)\<close>

text \<open>
  The three zones are the keys \<open>'left'\<close>, \<open>'center'\<close>, \<open>'right'\<close> of the source's dictionaries,
  in this order. Risk levels and directions stay the strings they are in the source; the
  direction \<open>None\<close> is Python's \<open>None\<close>.
\<close>

datatype zone_name = Left_zone | Center_zone | Right_zone

record zone_bounds =
  x_min :: int
  x_max :: int
  y_min :: int
  y_max :: int
  center_x :: int

text \<open>Python's \<open>int(x)\<close> on a float truncates towards zero.\<close>

definition py_int :: "real \<Rightarrow> int" where
  "py_int x = (if x \<ge> 0 then \<lfloor>x\<rfloor> else \<lceil>x\<rceil>)"

definition calculate_zone_boundaries :: "int \<Rightarrow> int \<Rightarrow> zone_name \<Rightarrow> zone_bounds" where
  "calculate_zone_boundaries width height z =
     (let left_boundary = py_int (real_of_int width * (33/100));
          right_boundary = py_int (real_of_int width * (67/100))
      in case z of
           Left_zone \<Rightarrow>
             \<lparr> x_min = 0, x_max = left_boundary, y_min = 0, y_max = height,
               center_x = left_boundary div 2 \<rparr>
         | Center_zone \<Rightarrow>
             \<lparr> x_min = left_boundary, x_max = right_boundary, y_min = 0, y_max = height,
               center_x = (left_boundary + right_boundary) div 2 \<rparr>
         | Right_zone \<Rightarrow>
             \<lparr> x_min = right_boundary, x_max = width, y_min = 0, y_max = height,
               center_x = (right_boundary + width) div 2 \<rparr>)"

definition is_object_in_zone :: "detection \<Rightarrow> zone_bounds \<Rightarrow> bool" where
  "is_object_in_zone detection zb =
     (case det_center detection of (cx, cy) \<Rightarrow>
      case det_bbox detection of (x1, y1, x2, y2) \<Rightarrow>
        if x_min zb \<le> cx \<and> cx \<le> x_max zb \<and> y_min zb \<le> cy \<and> cy \<le> y_max zb then True
        else
          let overlap_x = max 0 (min x2 (x_max zb) - max x1 (x_min zb));
              overlap_y = max 0 (min y2 (y_max zb) - max y1 (y_min zb));
              overlap_area = overlap_x * overlap_y;
              object_area = (x2 - x1) * (y2 - y1)
          in if object_area > 0
             then real_of_int overlap_area / real_of_int object_area > 1/2
             else False)"

record zone =
  object_count :: nat
  objects :: "detection list"
  total_area :: int
  density :: real
  blocked :: bool
  risk_level :: string
  avg_risk_score :: real
  passable :: bool

definition density_low :: real where "density_low = 1/10"
definition density_medium :: real where "density_medium = 2/10"
definition density_high :: real where "density_high = 4/10"

definition is_zone_blocked :: "config \<Rightarrow> detection list \<Rightarrow> real \<Rightarrow> int list \<Rightarrow> bool" where
  "is_zone_blocked cfg zone_objects dens risk_scores =
     (if zone_objects = [] then False
      else if dens > density_high then True
      else if risk_scores \<noteq> [] \<and> Max (set risk_scores) \<ge> 3 then True
      else if length zone_objects \<ge> MAX_OBJECTS_PER_ZONE cfg then True
      else if dens > density_medium \<and> risk_scores \<noteq> []
              \<and> real_of_int (sum_list risk_scores) / real (length risk_scores) \<ge> 2 then True
      else False)"

text \<open>
  The risk score of one member of a zone: its \<open>urgency\<close> when it carries one, otherwise a
  score from its share of the frame, the unguarded true division of its area by
  \<open>frame_shape[0] * frame_shape[1]\<close>.
\<close>

type_synonym frame_shape = "int \<times> int \<times> int"

definition risk_score :: "number_kind \<Rightarrow> detection \<Rightarrow> frame_shape \<Rightarrow> py_error + int" where
  "risk_score k detection fs =
     (case det_urgency detection of
        Some u \<Rightarrow> Inr u
      | None \<Rightarrow>
          (case fs of (h, w, c) \<Rightarrow>
             case true_divide k (det_area detection) (h * w) of
               Inl e \<Rightarrow> Inl e
             | Inr q \<Rightarrow>
                 let relative_size = q
                 in Inr (if pyfloat_gt relative_size (15/100) then 3
                         else if pyfloat_gt relative_size (8/100) then 2 else 1)))"

text \<open>The loop of \<open>_analyze_zone\<close> that collects the members, their area and their scores.\<close>

fun collect_zone ::
  "number_kind \<Rightarrow> detection list \<Rightarrow> zone_bounds \<Rightarrow> frame_shape
     \<Rightarrow> detection list \<times> int \<times> int list \<Rightarrow> py_error + detection list \<times> int \<times> int list" where
  "collect_zone k [] zb fs acc = Inr acc"
| "collect_zone k (detection # rest) zb fs (zone_objects, area_sum, risk_scores) =
     (if is_object_in_zone detection zb then
        (case risk_score k detection fs of
           Inl e \<Rightarrow> Inl e
         | Inr r \<Rightarrow>
             collect_zone k rest zb fs
               (zone_objects @ [detection], area_sum + det_area detection, risk_scores @ [r]))
      else collect_zone k rest zb fs (zone_objects, area_sum, risk_scores))"

definition analyze_zone ::
  "number_kind \<Rightarrow> config \<Rightarrow> detection list \<Rightarrow> zone_bounds \<Rightarrow> frame_shape \<Rightarrow> py_error + zone" where
  "analyze_zone k cfg detections zb fs =
     (let zone_area = (x_max zb - x_min zb) * (y_max zb - y_min zb) in
      case collect_zone k detections zb fs ([], 0, []) of
        Inl e \<Rightarrow> Inl e
      | Inr (zone_objects, area_sum, risk_scores) \<Rightarrow>
          let dens = (if zone_area > 0 then real_of_int area_sum / real_of_int zone_area else 0);
              is_blocked = is_zone_blocked cfg zone_objects dens risk_scores;
              avg_risk = (if risk_scores \<noteq> []
                          then real_of_int (sum_list risk_scores) / real (length risk_scores)
                          else 0);
              level = (if avg_risk \<ge> 25/10 \<or> dens > density_high then ''high''
                       else if avg_risk \<ge> 15/10 \<or> dens > density_medium then ''medium''
                       else if avg_risk \<ge> 5/10 \<or> dens > density_low then ''low''
                       else ''safe'')
          in Inr \<lparr> object_count = length zone_objects, objects = zone_objects,
                   total_area = area_sum, density = dens, blocked = is_blocked,
                   risk_level = level, avg_risk_score = avg_risk,
                   passable = (\<not> is_blocked \<and> level \<in> set [''safe'', ''low'']) \<rparr>)"

definition risk_penalties :: "(string \<times> real) list" where
  "risk_penalties = [(''safe'', 0), (''low'', 1/10), (''medium'', 3/10), (''high'', 6/10)]"

definition calculate_zone_score :: "zone \<Rightarrow> real" where
  "calculate_zone_score zone_data =
     (if blocked zone_data then 0
      else
        let base_score = 1 - (case map_of risk_penalties (risk_level zone_data) of
                                Some p \<Rightarrow> p | None \<Rightarrow> 5/10);
            object_penalty = min (2/10) (real (object_count zone_data) * (5/100));
            density_penalty = min (3/10) (density zone_data * (5/10))
        in max 0 (base_score - object_penalty - density_penalty))"

record navigation_decision =
  direction :: "string option"
  confidence :: real
  safe_zones :: "string list"
  overall_risk :: string

definition make_navigation_decision :: "(zone_name \<Rightarrow> zone) \<Rightarrow> navigation_decision" where
  "make_navigation_decision zone_analysis =
     (let left_zone = zone_analysis Left_zone;
          center_zone = zone_analysis Center_zone;
          right_zone = zone_analysis Right_zone;
          safe = (if passable left_zone then [''left''] else [])
               @ (if passable center_zone then [''center''] else [])
               @ (if passable right_zone then [''right''] else []);
          risk_levels = map (\<lambda>z. risk_level (zone_analysis z)) [Left_zone, Center_zone, Right_zone];
          overall = (if ''high'' \<in> set risk_levels then ''high''
                     else if ''medium'' \<in> set risk_levels then ''medium''
                     else if ''low'' \<in> set risk_levels then ''low''
                     else ''safe'');
          (dir, conf) =
            (if passable center_zone then (Some ''forward'', 9/10)
             else if blocked center_zone then
               let left_score = calculate_zone_score left_zone;
                   right_score = calculate_zone_score right_zone
               in if left_score > right_score \<and> passable left_zone
                    then (Some ''left'', min (8/10) left_score)
                  else if right_score > left_score \<and> passable right_zone
                    then (Some ''right'', min (8/10) right_score)
                  else if passable left_zone then (Some ''left'', 6/10)
                  else if passable right_zone then (Some ''right'', 6/10)
                  else (Some ''stop'', 9/10)
             else (None, 0))
      in \<lparr> direction = dir, confidence = conf, safe_zones = safe, overall_risk = overall \<rparr>)"

record navigation_analysis =
  zones :: "zone_name \<Rightarrow> zone"
  center_blocked :: bool
  recommended_direction :: "string option"
  nav_confidence :: real
  nav_safe_zones :: "string list"
  nav_risk_level :: string
  total_objects :: nat

definition empty_zone :: zone where
  "empty_zone =
     \<lparr> object_count = 0, objects = [], total_area = 0, density = 0, blocked = False,
       risk_level = ''safe'', avg_risk_score = 0, passable = True \<rparr>"

definition get_empty_analysis :: "frame_shape \<Rightarrow> navigation_analysis" where
  "get_empty_analysis fs =
     \<lparr> zones = (\<lambda>z. empty_zone), center_blocked = False,
       recommended_direction = Some ''forward'', nav_confidence = 1,
       nav_safe_zones = [''left'', ''center'', ''right''], nav_risk_level = ''safe'',
       total_objects = 0 \<rparr>"

definition analyze_regions ::
  "number_kind \<Rightarrow> config \<Rightarrow> detection list \<Rightarrow> frame_shape
     \<Rightarrow> py_error + navigation_analysis" where
  "analyze_regions k cfg detections fs =
     (if detections = [] then Inr (get_empty_analysis fs)
      else
        case fs of (height, width, channels) \<Rightarrow>
        let bounds = calculate_zone_boundaries width height in
        case analyze_zone k cfg detections (bounds Left_zone) fs of
          Inl e \<Rightarrow> Inl e
        | Inr zl \<Rightarrow>
        case analyze_zone k cfg detections (bounds Center_zone) fs of
          Inl e \<Rightarrow> Inl e
        | Inr zc \<Rightarrow>
        case analyze_zone k cfg detections (bounds Right_zone) fs of
          Inl e \<Rightarrow> Inl e
        | Inr zr \<Rightarrow>
          let zone_analysis = (\<lambda>z. case z of Left_zone \<Rightarrow> zl | Center_zone \<Rightarrow> zc | Right_zone \<Rightarrow> zr);
              decision = make_navigation_decision zone_analysis
          in Inr \<lparr> zones = zone_analysis,
                   center_blocked = blocked (zone_analysis Center_zone),
                   recommended_direction = direction decision,
                   nav_confidence = confidence decision,
                   nav_safe_zones = safe_zones decision,
                   nav_risk_level = overall_risk decision,
                   total_objects = length detections \<rparr>)"

section \<open>Alert scheduler (\<open>voice_alert.py\<close>)\<close>










section \<open>Specification-side definitions and example inputs\<close>

text \<open>
  The threshold ladder in the words of the specification: level, urgency and closeness of a
  relative size under a threshold table. It is compared below with what
  \<open>calculate_distance_info\<close> computes.
\<close>

definition spec_ladder :: "thresholds \<Rightarrow> real \<Rightarrow> string \<times> int \<times> bool" where
  "spec_ladder th rs =
     (if rs \<ge> very_close th then (''very_close'', 3, True)
      else if rs \<ge> close th then (''close'', 2, True)
      else if rs \<ge> medium th then (''medium'', 1, True)
      else (''far'', 0, False))"

text \<open>
  A person of 100 by 100 pixels in the middle of a 640 by 480 frame, a box without width at
  the same place, and a larger person.
\<close>

definition person_box :: detection where
  "person_box = make_detection 0 ''person'' (9/10) (270, 190, 370, 290)"

definition empty_box :: detection where
  "empty_box = make_detection 0 ''person'' (9/10) (270, 190, 270, 290)"

definition person_near :: detection where
  "person_near = make_detection 0 ''person'' (9/10) (170, 40, 470, 440)"

text \<open>
  The life of one track under \<open>ObjectTracker.update\<close>: in every frame it is either matched
  with a detection (\<open>update\<close> is called on it, at some time) or not (\<open>miss_frame\<close> is called).
\<close>

datatype track_event = Hit detection real | Miss

fun track_after :: "tracked_object \<Rightarrow> track_event list \<Rightarrow> tracked_object" where
  "track_after t [] = t"
| "track_after t (Hit d now # es) = track_after (tracked_object_update t d now) es"
| "track_after t (Miss # es) = track_after (miss_frame t) es"

text \<open>The average that \<open>should_distance_alert\<close> takes over the recorded distances.\<close>

definition avg_distance_of :: "tracked_object \<Rightarrow> real" where
  "avg_distance_of t = sum_list (distances t) / real (length (distances t))"

text \<open>The tracker run over a sequence of frames, each with the time of its update.\<close>

fun run_frames :: "object_tracker \<Rightarrow> (detection list \<times> real) list \<Rightarrow> object_tracker" where
  "run_frames tr [] = tr"
| "run_frames tr ((ds, now) # frames) = run_frames (snd (object_tracker_update tr ds now)) frames"

text \<open>
  The person with a distance of two metres attached, a car at eight metres, and a distant
  bus without a distance.
\<close>

definition person_2m :: detection where
  "person_2m = person_box \<lparr> det_distance_meters := Some 2 \<rparr>"

definition car_8m :: detection where
  "car_8m = (make_detection 2 ''car'' (8/10) (480, 200, 600, 280))
              \<lparr> det_distance_meters := Some 8 \<rparr>"

definition far_bus :: detection where
  "far_bus = make_detection 5 ''bus'' (8/10) (20, 100, 80, 140)"

text \<open>
  The track of the person after three frames, ten frames apart per second, and the tracker
  that has seen just these three frames: it holds this track, stable and not alerted yet.
\<close>

definition stable_track :: tracked_object where
  "stable_track =
     track_after (tracked_object_init person_2m 1 1000)
       [Hit person_2m (10001/10), Hit person_2m (10002/10)]"

definition seen_thrice :: object_tracker where
  "seen_thrice =
     run_frames object_tracker_init
       [([person_2m], 1000), ([person_2m], 10001/10), ([person_2m], 10002/10)]"

text \<open>
  A street: the person and the car for three frames, the car alone for two more, then eight
  frames without detections. The person's track has then missed 10 frames and the car's 8.
\<close>

definition lost_track :: tracked_object where
  "lost_track =
     track_after (tracked_object_init person_2m 1 1000)
       [Hit person_2m (10001/10), Hit person_2m (10002/10),
        Miss, Miss, Miss, Miss, Miss, Miss, Miss, Miss, Miss, Miss]"

definition recent_track :: tracked_object where
  "recent_track =
     track_after (tracked_object_init car_8m 2 1000)
       [Hit car_8m (10001/10), Hit car_8m (10002/10), Hit car_8m (10003/10),
        Hit car_8m (10004/10), Miss, Miss, Miss, Miss, Miss, Miss, Miss, Miss]"



text \<open>
  The runner \<open>tests/test_windows.py\<close> does not consult the tracker's throttle: it marks every
  stable detection for alert and applies a gate of its own, keyed by track id in the
  dictionary \<open>last_track_alerts\<close>, with an interval chosen from the detection's distance.
\<close>

definition continuous_alert_interval :: "real \<Rightarrow> real" where
  "continuous_alert_interval distance =
     (if distance < 3 then 3 else if distance < 6 then 6 else 10)"

definition runner_gate ::
  "(int \<rightharpoonup> real) \<Rightarrow> int \<Rightarrow> real \<Rightarrow> real \<Rightarrow> bool \<times> (int \<rightharpoonup> real)" where
  "runner_gate last_track_alerts tid distance now =
     (let alert_interval = continuous_alert_interval distance;
          last_time = (case last_track_alerts tid of Some l \<Rightarrow> l | None \<Rightarrow> 0)
      in if now - last_time \<ge> alert_interval
         then (True, last_track_alerts(tid \<mapsto> now))
         else (False, last_track_alerts))"

text \<open>A person whose centre lies on the column that ends the left zone of a 640 by 480 frame.\<close>

definition edge_box :: detection where
  "edge_box = make_detection 0 ''person'' (9/10) (201, 230, 221, 250)"

text \<open>
  A frame of 640 by 480 with four people, as the detector reports them (no urgency attached):
  one in the left zone, a large and a small one in the centre zone, one in the right zone.
\<close>

definition crowded_scene :: "detection list" where
  "crowded_scene =
     [make_detection 0 ''person'' (9/10) (20, 160, 180, 320),
      make_detection 0 ''person'' (9/10) (240, 160, 400, 320),
      make_detection 0 ''person'' (9/10) (300, 20, 340, 60),
      make_detection 0 ''person'' (9/10) (450, 160, 610, 320)]"

text \<open>The same frame with a person filling each zone.\<close>

definition wall_scene :: "detection list" where
  "wall_scene =
     [make_detection 0 ''person'' (9/10) (5, 120, 205, 360),
      make_detection 0 ''person'' (9/10) (220, 120, 420, 360),
      make_detection 0 ''person'' (9/10) (435, 120, 635, 360)]"

text \<open>The zone analyses that \<open>analyze_regions\<close> hands to the decision, in such a frame.\<close>

definition zones_of :: "detection list \<Rightarrow> zone_name \<Rightarrow> zone" where
  "zones_of detections =
     (case analyze_regions Numpy_int default_config detections (480, 640, 3) of
        Inr r \<Rightarrow> zones r
      | Inl e \<Rightarrow> (\<lambda>z. empty_zone))"

text \<open>A very close person in the middle of the frame.\<close>

definition very_close_person :: detection where
  "very_close_person = person_near \<lparr> det_urgency := Some 3 \<rparr>"

text \<open>What a navigation analysis says about passability, blocking and the decision.\<close>

definition decision_summary ::
  "navigation_analysis \<Rightarrow> bool \<times> bool \<times> bool \<times> bool \<times> string option \<times> real" where
  "decision_summary r =
     (passable (zones r Left_zone), passable (zones r Center_zone), blocked (zones r Center_zone),
      passable (zones r Right_zone), recommended_direction r, nav_confidence r)"




section \<open>Verified properties of the risk classifier\<close>

lemma thresholds_descending:
  "medium (thresholds_for c) \<le> close (thresholds_for c)
   \<and> close (thresholds_for c) \<le> very_close (thresholds_for c)"
  by (simp add: thresholds_for_def distance_thresholds_def)

lemma thresholds_positive:
  "0 < medium (thresholds_for c) \<and> 0 < close (thresholds_for c)
   \<and> 0 < very_close (thresholds_for c)"
  by (simp add: thresholds_for_def distance_thresholds_def)

lemma calculate_distance_info_value:
  "frame_area \<noteq> 0 \<Longrightarrow>
     \<exists>i. calculate_distance_info k d frame_area = Inr i
       \<and> relative_size i = Finite (real_of_int (det_area d) / real_of_int frame_area)
       \<and> (distance_level i, urgency i, is_close i)
           = spec_ladder (thresholds_for (det_class_name d))
               (real_of_int (det_area d) / real_of_int frame_area)"
  by (simp add: calculate_distance_info_def true_divide_def spec_ladder_def Let_def)

lemma spec_ladder_mono:
  "medium th \<le> close th \<Longrightarrow> close th \<le> very_close th \<Longrightarrow> r1 \<le> r2 \<Longrightarrow>
     fst (snd (spec_ladder th r1)) \<le> fst (snd (spec_ladder th r2))"
  by (simp add: spec_ladder_def)

text \<open>
  Claim C8. For a positive frame area, \<open>calculate_distance_info\<close> returns a result, and its
  level, urgency and closeness are those of the descending threshold ladder applied to
  \<open>area / frame_area\<close> under the thresholds of the class name. For two detections of one class
  name in one frame, the one with the larger (or equal) area never gets the smaller urgency.
\<close>

theorem calculate_distance_info_ladder_monotone:
  assumes "0 < frame_area"
    and "det_class_name d1 = det_class_name d2"
    and "det_area d1 \<le> det_area d2"
  shows "\<exists>i1 i2. calculate_distance_info k d1 frame_area = Inr i1
          \<and> calculate_distance_info k d2 frame_area = Inr i2
          \<and> (distance_level i1, urgency i1, is_close i1)
               = spec_ladder (thresholds_for (det_class_name d1))
                   (real_of_int (det_area d1) / real_of_int frame_area)
          \<and> (distance_level i2, urgency i2, is_close i2)
               = spec_ladder (thresholds_for (det_class_name d2))
                   (real_of_int (det_area d2) / real_of_int frame_area)
          \<and> urgency i1 \<le> urgency i2"
proof -
  let ?r1 = "real_of_int (det_area d1) / real_of_int frame_area"
  let ?r2 = "real_of_int (det_area d2) / real_of_int frame_area"
  from assms(1) have nz: "frame_area \<noteq> 0" by simp
  obtain i1 where i1: "calculate_distance_info k d1 frame_area = Inr i1"
     "(distance_level i1, urgency i1, is_close i1)
        = spec_ladder (thresholds_for (det_class_name d1)) ?r1"
    using calculate_distance_info_value[OF nz, of k d1] by blast
  obtain i2 where i2: "calculate_distance_info k d2 frame_area = Inr i2"
     "(distance_level i2, urgency i2, is_close i2)
        = spec_ladder (thresholds_for (det_class_name d2)) ?r2"
    using calculate_distance_info_value[OF nz, of k d2] by blast
  have le: "?r1 \<le> ?r2"
    using assms(1,3) by (simp add: divide_right_mono)
  have u1: "urgency i1 = fst (snd (spec_ladder (thresholds_for (det_class_name d2)) ?r1))"
    using i1(2) assms(2) by (metis fst_conv snd_conv)
  have u2: "urgency i2 = fst (snd (spec_ladder (thresholds_for (det_class_name d2)) ?r2))"
    using i2(2) by (metis fst_conv snd_conv)
  have "urgency i1 \<le> urgency i2"
    unfolding u1 u2 using thresholds_descending[of "det_class_name d2"] le
    by (intro spec_ladder_mono) auto
  with i1 i2 show ?thesis by auto
qed

theorem calculate_distance_info_ladder_monotone_witness:
  "(0::int) < 307200 \<and> det_class_name person_box = det_class_name person_near
   \<and> det_area person_box \<le> det_area person_near
   \<and> (\<exists>i1 i2. calculate_distance_info Numpy_int person_box 307200 = Inr i1
          \<and> calculate_distance_info Numpy_int person_near 307200 = Inr i2
          \<and> urgency i1 = 0 \<and> urgency i2 = 3 \<and> urgency i1 \<le> urgency i2)"
  using calculate_distance_info_ladder_monotone[of 307200 person_box person_near Numpy_int]
  by (auto simp add: person_box_def person_near_def make_detection_def true_divide_def
        calculate_distance_info_def thresholds_for_def distance_thresholds_def)

text \<open>
  Claim C4, as the code has it. \<open>calculate_distance_info\<close> has no guard on the frame area.
  For a positive frame area it returns a result, with the relative size \<open>area / frame_area\<close>.
  For a negative frame area and an object area that is not negative it returns a result whose
  relative size is \<open>area / frame_area\<close>, a number that is at most zero (and zero only for an
  area of zero), hence level far, urgency 0, not close. For a frame area of zero the outcome
  depends on the kind of the area: a Python integer raises \<open>ZeroDivisionError\<close>; a numpy
  integer, as the detector produces it, raises nothing, and the relative size is \<open>inf\<close> for a
  positive area, hence level very close, urgency 3, close, and \<open>nan\<close> or \<open>-inf\<close> for an area
  of zero or below, hence level far, urgency 0, not close.
\<close>

theorem calculate_distance_info_frame_area_cases:
  "(0 < frame_area \<longrightarrow>
      (\<exists>i. calculate_distance_info k d frame_area = Inr i
         \<and> relative_size i = Finite (real_of_int (det_area d) / real_of_int frame_area)))
   \<and> (frame_area < 0 \<and> 0 \<le> det_area d \<longrightarrow>
        (\<exists>i. calculate_distance_info k d frame_area = Inr i
           \<and> relative_size i = Finite (real_of_int (det_area d) / real_of_int frame_area)
           \<and> real_of_int (det_area d) / real_of_int frame_area \<le> 0
           \<and> distance_level i = ''far'' \<and> urgency i = 0 \<and> \<not> is_close i))
   \<and> (frame_area = 0 \<longrightarrow>
        calculate_distance_info Python_int d frame_area = Inl ZeroDivisionError)
   \<and> (frame_area = 0 \<and> 0 < det_area d \<longrightarrow>
        (\<exists>i. calculate_distance_info Numpy_int d frame_area = Inr i
           \<and> relative_size i = PosInf
           \<and> distance_level i = ''very_close'' \<and> urgency i = 3 \<and> is_close i))
   \<and> (frame_area = 0 \<and> det_area d \<le> 0 \<longrightarrow>
        (\<exists>i. calculate_distance_info Numpy_int d frame_area = Inr i
           \<and> relative_size i = (if det_area d = 0 then NaN else NegInf)
           \<and> distance_level i = ''far'' \<and> urgency i = 0 \<and> \<not> is_close i))"
proof (intro conjI impI)
  assume "0 < frame_area"
  then show "\<exists>i. calculate_distance_info k d frame_area = Inr i
         \<and> relative_size i = Finite (real_of_int (det_area d) / real_of_int frame_area)"
    using calculate_distance_info_value[of frame_area k d] by auto
next
  assume a: "frame_area < 0 \<and> 0 \<le> det_area d"
  then have rs: "real_of_int (det_area d) / real_of_int frame_area \<le> 0"
    by (simp add: divide_nonneg_neg)
  from a rs thresholds_positive[of "det_class_name d"]
  show "\<exists>i. calculate_distance_info k d frame_area = Inr i
           \<and> relative_size i = Finite (real_of_int (det_area d) / real_of_int frame_area)
           \<and> real_of_int (det_area d) / real_of_int frame_area \<le> 0
           \<and> distance_level i = ''far'' \<and> urgency i = 0 \<and> \<not> is_close i"
    by (simp add: calculate_distance_info_def true_divide_def Let_def)
next
  assume "frame_area = 0"
  then show "calculate_distance_info Python_int d frame_area = Inl ZeroDivisionError"
    by (simp add: calculate_distance_info_def true_divide_def)
next
  assume "frame_area = 0 \<and> 0 < det_area d"
  then show "\<exists>i. calculate_distance_info Numpy_int d frame_area = Inr i
           \<and> relative_size i = PosInf
           \<and> distance_level i = ''very_close'' \<and> urgency i = 3 \<and> is_close i"
    by (simp add: calculate_distance_info_def true_divide_def Let_def)
next
  assume "frame_area = 0 \<and> det_area d \<le> 0"
  then show "\<exists>i. calculate_distance_info Numpy_int d frame_area = Inr i
           \<and> relative_size i = (if det_area d = 0 then NaN else NegInf)
           \<and> distance_level i = ''far'' \<and> urgency i = 0 \<and> \<not> is_close i"
    by (simp add: calculate_distance_info_def true_divide_def Let_def)
qed

theorem calculate_distance_info_frame_area_cases_witness:
  "(0::int) < 307200 \<and> 0 < det_area person_box \<and> det_area empty_box \<le> 0
   \<and> (\<exists>i. calculate_distance_info Numpy_int person_box 307200 = Inr i
          \<and> relative_size i = Finite (10000 / 307200))
   \<and> (\<exists>i. calculate_distance_info Numpy_int person_box (- 10000) = Inr i
          \<and> relative_size i = Finite (- 1) \<and> urgency i = 0)
   \<and> calculate_distance_info Python_int person_box 0 = Inl ZeroDivisionError
   \<and> (\<exists>i. calculate_distance_info Numpy_int person_box 0 = Inr i
          \<and> relative_size i = PosInf \<and> urgency i = 3)
   \<and> (\<exists>i. calculate_distance_info Numpy_int empty_box 0 = Inr i
          \<and> relative_size i = NaN \<and> urgency i = 0)"
  using calculate_distance_info_frame_area_cases[of 307200 Numpy_int person_box]
    calculate_distance_info_frame_area_cases[of "- 10000" Numpy_int person_box]
    calculate_distance_info_frame_area_cases[of 0 Numpy_int person_box]
    calculate_distance_info_frame_area_cases[of 0 Numpy_int empty_box]
  by (auto simp add: person_box_def empty_box_def make_detection_def)

text \<open>
  The claim as stated fails. On a frame area of zero the detector's 10000-pixel person gets
  the relative size \<open>inf\<close> and urgency 3, and the same person with a Python integer for its
  area makes the call raise; on a negative frame area its relative size is \<open>-1\<close>, not \<open>0\<close>.
\<close>

theorem calculate_distance_info_bad_frame_area_counterexample:
  "map_sum id relative_size (calculate_distance_info Numpy_int person_box 0) = Inr PosInf
   \<and> map_sum id urgency (calculate_distance_info Numpy_int person_box 0) = Inr 3
   \<and> calculate_distance_info Python_int person_box 0 = Inl ZeroDivisionError
   \<and> map_sum id relative_size (calculate_distance_info Numpy_int person_box (- 10000))
       = Inr (Finite (- 1))"
  by (simp add: calculate_distance_info_def true_divide_def person_box_def make_detection_def
        thresholds_for_def distance_thresholds_def Let_def)

section \<open>Verified properties of the tracker\<close>

text \<open>The equations that evaluate the example tracks and tracker runs.\<close>

lemmas example_eval =
  stable_track_def lost_track_def recent_track_def person_2m_def car_8m_def far_bus_def
  person_box_def make_detection_def tracked_object_init_def tracked_object_update_def
  append_bounded_def miss_frame_def

lemmas tracker_eval =
  object_tracker_update_def advance_tracks_def match_detections_def object_tracker_init_def
  with_distance_def create_track_def modify_track_def similarity_def is_expired_def
  get_current_detection_def calculate_iou_def calculate_distance_def List.map_filter_def Let_def

lemma seen_thrice_table:
  "seen_thrice = \<lparr> tracked_objects = [(1, stable_track)], next_track_id = 2,
                   max_distance_threshold = 100 \<rparr>"
  by (simp add: seen_thrice_def example_eval tracker_eval)


text \<open>
  Claim C9. For well-formed boxes, the intersection over union of a box with itself is 1,
  that of two boxes that do not overlap is 0, and the function is symmetric.
\<close>

theorem calculate_iou_identical_disjoint_symmetric:
  assumes "x1 < x2" "y1 < y2" "u1 < u2" "v1 < v2"
  shows "calculate_iou (x1, y1, x2, y2) (x1, y1, x2, y2) = 1
       \<and> (x2 \<le> u1 \<or> u2 \<le> x1 \<or> y2 \<le> v1 \<or> v2 \<le> y1 \<longrightarrow>
            calculate_iou (x1, y1, x2, y2) (u1, v1, u2, v2) = 0)
       \<and> calculate_iou (x1, y1, x2, y2) (u1, v1, u2, v2)
           = calculate_iou (u1, v1, u2, v2) (x1, y1, x2, y2)"
proof (intro conjI impI)
  have "0 < (x2 - x1) * (y2 - y1)" using assms by simp
  then show "calculate_iou (x1, y1, x2, y2) (x1, y1, x2, y2) = 1"
    using assms by (simp add: calculate_iou_def Let_def)
next
  assume "x2 \<le> u1 \<or> u2 \<le> x1 \<or> y2 \<le> v1 \<or> v2 \<le> y1"
  then show "calculate_iou (x1, y1, x2, y2) (u1, v1, u2, v2) = 0"
    using assms by (auto simp add: calculate_iou_def Let_def)
next
  show "calculate_iou (x1, y1, x2, y2) (u1, v1, u2, v2)
           = calculate_iou (u1, v1, u2, v2) (x1, y1, x2, y2)"
    by (simp add: calculate_iou_def Let_def max.commute min.commute add.commute)
qed

theorem calculate_iou_identical_disjoint_symmetric_witness:
  "(0::int) < 10 \<and> calculate_iou (0, 0, 10, 10) (0, 0, 10, 10) = 1
   \<and> calculate_iou (0, 0, 10, 10) (20, 20, 30, 30) = 0
   \<and> calculate_iou (0, 0, 10, 10) (5, 5, 15, 15) = calculate_iou (5, 5, 15, 15) (0, 0, 10, 10)
   \<and> calculate_iou (0, 0, 10, 10) (5, 5, 15, 15) = 1/7"
  using calculate_iou_identical_disjoint_symmetric[of 0 10 0 10 20 30 20 30]
    calculate_iou_identical_disjoint_symmetric[of 0 10 0 10 5 15 5 15]
  by (simp add: calculate_iou_def)

lemma should_alert_accept:
  "fst (should_alert t iv now) \<longleftrightarrow> is_stable t \<and> now - last_alert_time t \<ge> iv"
  by (simp add: should_alert_def)

lemma should_alert_state:
  "snd (should_alert t iv now)
     = (if fst (should_alert t iv now)
        then t \<lparr> last_alert_time := now, alert_count := alert_count t + 1 \<rparr> else t)"
  by (simp add: should_alert_def)

lemma should_distance_alert_accept:
  "fst (should_distance_alert t b now) \<longleftrightarrow>
     is_stable t \<and> distances t \<noteq> []
     \<and> now - last_distance_alert t \<ge> distance_interval (avg_distance_of t) b"
  by (simp add: should_distance_alert_def Let_def avg_distance_of_def)

lemma should_distance_alert_state:
  "snd (should_distance_alert t b now)
     = (if fst (should_distance_alert t b now) then t \<lparr> last_distance_alert := now \<rparr> else t)"
  by (simp add: should_distance_alert_def Let_def)

lemma should_alert_second:
  assumes "fst (should_alert t iv now)"
  shows "fst (should_alert (snd (should_alert t iv now)) iv now') \<longleftrightarrow> now' - now \<ge> iv"
proof -
  from assms have st: "is_stable t" by (simp add: should_alert_accept)
  have t': "snd (should_alert t iv now)
              = t \<lparr> last_alert_time := now, alert_count := alert_count t + 1 \<rparr>"
    using assms by (simp add: should_alert_state)
  show ?thesis unfolding t' should_alert_accept using st by simp
qed

lemma should_distance_alert_second:
  assumes "fst (should_distance_alert t b now)"
  shows "fst (should_distance_alert (snd (should_distance_alert t b now)) b now')
           \<longleftrightarrow> now' - now \<ge> distance_interval (avg_distance_of t) b"
proof -
  from assms have st: "is_stable t" "distances t \<noteq> []"
    by (simp_all add: should_distance_alert_accept)
  have t': "snd (should_distance_alert t b now) = t \<lparr> last_distance_alert := now \<rparr>"
    using assms by (simp add: should_distance_alert_state)
  show ?thesis
    unfolding t' should_distance_alert_accept using st by (simp add: avg_distance_of_def)
qed

lemma distance_interval_positive:
  "0 < b \<Longrightarrow> 0 < distance_interval d b"
  by (simp add: distance_interval_def)

text \<open>
  Claim C10, as the code has it. \<open>should_alert\<close> accepts exactly for a stable track whose last
  alert lies at least the interval back; when it accepts it sets \<open>last_alert_time\<close> to the
  current time and adds one to \<open>alert_count\<close>, and otherwise it leaves the track as it is.
  \<open>should_distance_alert\<close> accepts exactly for a stable track with a recorded distance whose
  last distance alert lies at least the interval of its distance back; when it accepts it sets
  \<open>last_distance_alert\<close>, and otherwise it leaves the track as it is. After an accepted query
  a second one is accepted exactly when it comes at least the interval later. Hence a second
  query that follows an accepted one by less than the interval is refused, and with a positive
  interval the same query asked twice at one instant never accepts twice.
\<close>

theorem throttle_queries_effect:
  "(fst (should_alert t iv now) \<longleftrightarrow> is_stable t \<and> now - last_alert_time t \<ge> iv)
   \<and> snd (should_alert t iv now)
       = (if fst (should_alert t iv now)
          then t \<lparr> last_alert_time := now, alert_count := alert_count t + 1 \<rparr> else t)
   \<and> (fst (should_distance_alert t b now) \<longleftrightarrow>
         is_stable t \<and> distances t \<noteq> []
         \<and> now - last_distance_alert t \<ge> distance_interval (avg_distance_of t) b)
   \<and> snd (should_distance_alert t b now)
       = (if fst (should_distance_alert t b now) then t \<lparr> last_distance_alert := now \<rparr> else t)
   \<and> (fst (should_alert t iv now) \<longrightarrow>
         (fst (should_alert (snd (should_alert t iv now)) iv now') \<longleftrightarrow> now' - now \<ge> iv))
   \<and> (fst (should_distance_alert t b now) \<longrightarrow>
         (fst (should_distance_alert (snd (should_distance_alert t b now)) b now')
            \<longleftrightarrow> now' - now \<ge> distance_interval (avg_distance_of t) b))
   \<and> (now' - now < iv \<longrightarrow>
         \<not> (fst (should_alert t iv now) \<and> fst (should_alert (snd (should_alert t iv now)) iv now')))
   \<and> (now' - now < distance_interval (avg_distance_of t) b \<longrightarrow>
         \<not> (fst (should_distance_alert t b now)
            \<and> fst (should_distance_alert (snd (should_distance_alert t b now)) b now')))
   \<and> (0 < iv \<longrightarrow>
         \<not> (fst (should_alert t iv now) \<and> fst (should_alert (snd (should_alert t iv now)) iv now)))
   \<and> (0 < b \<longrightarrow>
         \<not> (fst (should_distance_alert t b now)
            \<and> fst (should_distance_alert (snd (should_distance_alert t b now)) b now)))"
proof (intro conjI impI)
  show "fst (should_alert t iv now) \<longleftrightarrow> is_stable t \<and> now - last_alert_time t \<ge> iv"
    by (rule should_alert_accept)
  show "snd (should_alert t iv now)
       = (if fst (should_alert t iv now)
          then t \<lparr> last_alert_time := now, alert_count := alert_count t + 1 \<rparr> else t)"
    by (rule should_alert_state)
  show "fst (should_distance_alert t b now) \<longleftrightarrow>
         is_stable t \<and> distances t \<noteq> []
         \<and> now - last_distance_alert t \<ge> distance_interval (avg_distance_of t) b"
    by (rule should_distance_alert_accept)
  show "snd (should_distance_alert t b now)
       = (if fst (should_distance_alert t b now) then t \<lparr> last_distance_alert := now \<rparr> else t)"
    by (rule should_distance_alert_state)
next
  assume "fst (should_alert t iv now)"
  then show "fst (should_alert (snd (should_alert t iv now)) iv now') \<longleftrightarrow> now' - now \<ge> iv"
    by (rule should_alert_second)
next
  assume "fst (should_distance_alert t b now)"
  then show "fst (should_distance_alert (snd (should_distance_alert t b now)) b now')
            \<longleftrightarrow> now' - now \<ge> distance_interval (avg_distance_of t) b"
    by (rule should_distance_alert_second)
next
  assume "now' - now < iv"
  then show "\<not> (fst (should_alert t iv now)
               \<and> fst (should_alert (snd (should_alert t iv now)) iv now'))"
    using should_alert_second[of t iv now now'] by auto
next
  assume "now' - now < distance_interval (avg_distance_of t) b"
  then show "\<not> (fst (should_distance_alert t b now)
            \<and> fst (should_distance_alert (snd (should_distance_alert t b now)) b now'))"
    using should_distance_alert_second[of t b now now'] by auto
next
  assume "0 < iv"
  then show "\<not> (fst (should_alert t iv now)
               \<and> fst (should_alert (snd (should_alert t iv now)) iv now))"
    using should_alert_second[of t iv now now] by auto
next
  assume "0 < b"
  then have "0 < distance_interval (avg_distance_of t) b"
    by (rule distance_interval_positive)
  then show "\<not> (fst (should_distance_alert t b now)
            \<and> fst (should_distance_alert (snd (should_distance_alert t b now)) b now))"
    using should_distance_alert_second[of t b now now] by auto
qed

theorem throttle_queries_effect_witness:
  "(2000 - 2000 < (10::real)) \<and> (0::real) < 10 \<and> (0::real) < 5
   \<and> fst (should_alert stable_track 10 2000)
   \<and> \<not> fst (should_alert (snd (should_alert stable_track 10 2000)) 10 2000)
   \<and> fst (should_alert (snd (should_alert stable_track 10 2000)) 10 2010)
   \<and> alert_count (snd (should_alert stable_track 10 2000)) = 1
   \<and> fst (should_distance_alert stable_track 5 2000)
   \<and> \<not> fst (should_distance_alert (snd (should_distance_alert stable_track 5 2000)) 5 2000)
   \<and> fst (should_distance_alert (snd (should_distance_alert stable_track 5 2000)) 5 2003)"
  using throttle_queries_effect[of stable_track 10 2000 5 2000]
    throttle_queries_effect[of stable_track 10 2000 5 2010]
    throttle_queries_effect[of stable_track 10 2000 5 2003]
  by (simp add: example_eval avg_distance_of_def distance_interval_def
        should_alert_def should_distance_alert_def)

text \<open>
  The claim as stated fails: it sets no condition on the interval, and with an interval of
  zero the same query asked twice at one instant accepts twice (the alert count reaches 2).
\<close>

theorem zero_interval_accepts_twice_counterexample:
  "fst (should_alert stable_track 0 2000)
   \<and> fst (should_alert (snd (should_alert stable_track 0 2000)) 0 2000)
   \<and> alert_count (snd (should_alert (snd (should_alert stable_track 0 2000)) 0 2000)) = 2
   \<and> fst (should_distance_alert stable_track 0 2000)
   \<and> fst (should_distance_alert (snd (should_distance_alert stable_track 0 2000)) 0 2000)"
  by (simp add: example_eval avg_distance_of_def distance_interval_def
        should_alert_def should_distance_alert_def)

lemma update_min_stable [simp]:
  "min_stable_frames (tracked_object_update t d now) = min_stable_frames t"
  by (simp add: tracked_object_update_def Let_def)

lemma miss_min_stable [simp]:
  "min_stable_frames (miss_frame t) = min_stable_frames t"
  by (simp add: miss_frame_def)

lemma update_is_stable:
  "is_stable (tracked_object_update t d now)
     \<longleftrightarrow> is_stable t \<or> consecutive_detections t + 1 \<ge> min_stable_frames t"
  by (simp add: tracked_object_update_def Let_def)

lemma update_consecutive:
  "consecutive_detections (tracked_object_update t d now) = consecutive_detections t + 1"
  by (simp add: tracked_object_update_def Let_def)

lemma miss_is_stable: "is_stable (miss_frame t) = is_stable t"
  by (simp add: miss_frame_def)

lemma miss_consecutive: "consecutive_detections (miss_frame t) = 0"
  by (simp add: miss_frame_def)

lemma track_after_min_stable [simp]:
  "min_stable_frames (track_after t es) = min_stable_frames t"
  by (induction t es rule: track_after.induct) simp_all

lemma track_after_append:
  "track_after t (es @ es') = track_after (track_after t es) es'"
  by (induction t es rule: track_after.induct) simp_all

lemma track_after_keeps_stable:
  "is_stable t \<Longrightarrow> is_stable (track_after t es)"
  by (induction t es rule: track_after.induct)
     (simp_all add: update_is_stable miss_is_stable)

lemma stable_iff_reached:
  assumes "0 < min_stable_frames t"
  shows "is_stable (track_after t es) \<longleftrightarrow>
     is_stable t \<or> (\<exists>k. 1 \<le> k \<and> k \<le> length es
                     \<and> consecutive_detections (track_after t (take k es)) \<ge> min_stable_frames t)"
proof (induction es rule: rev_induct)
  case Nil
  then show ?case by auto
next
  case (snoc e es)
  let ?u = "track_after t es"
  let ?P = "\<lambda>es k. consecutive_detections (track_after t (take k es)) \<ge> min_stable_frames t"
  have step: "is_stable (track_after t (es @ [e])) \<longleftrightarrow>
      is_stable ?u \<or> consecutive_detections (track_after t (es @ [e])) \<ge> min_stable_frames t"
    using assms
    by (cases e) (auto simp add: track_after_append update_is_stable update_consecutive
        miss_is_stable miss_consecutive)
  have split: "(\<exists>k. 1 \<le> k \<and> k \<le> length (es @ [e]) \<and> ?P (es @ [e]) k)
      \<longleftrightarrow> (\<exists>k. 1 \<le> k \<and> k \<le> length es \<and> ?P es k) \<or> ?P (es @ [e]) (length (es @ [e]))"
  proof
    assume "\<exists>k. 1 \<le> k \<and> k \<le> length (es @ [e]) \<and> ?P (es @ [e]) k"
    then obtain k where k: "1 \<le> k" "k \<le> length (es @ [e])" "?P (es @ [e]) k" by blast
    show "(\<exists>k. 1 \<le> k \<and> k \<le> length es \<and> ?P es k) \<or> ?P (es @ [e]) (length (es @ [e]))"
    proof (cases "k \<le> length es")
      case True
      then have "take k (es @ [e]) = take k es" by simp
      with k True show ?thesis by auto
    next
      case False
      with k have "k = length (es @ [e])" by simp
      with k show ?thesis by blast
    qed
  next
    assume "(\<exists>k. 1 \<le> k \<and> k \<le> length es \<and> ?P es k) \<or> ?P (es @ [e]) (length (es @ [e]))"
    then show "\<exists>k. 1 \<le> k \<and> k \<le> length (es @ [e]) \<and> ?P (es @ [e]) k"
    proof
      assume "\<exists>k. 1 \<le> k \<and> k \<le> length es \<and> ?P es k"
      then obtain k where k: "1 \<le> k" "k \<le> length es" "?P es k" by blast
      then have "take k (es @ [e]) = take k es" by simp
      with k show ?thesis by (intro exI[of _ k]) simp
    next
      assume "?P (es @ [e]) (length (es @ [e]))"
      then show ?thesis by (intro exI[of _ "length (es @ [e])"]) simp
    qed
  qed
  show ?case
    unfolding split step using snoc.IH by auto
qed

text \<open>
  Claim C6. A new track is not stable and its hit counter is 1 (the detection that created
  it). After any sequence of matched and missed frames the track is stable exactly when the
  hit counter has reached 3 at some point of its life so far; once stable it stays stable
  whatever follows; a missed frame sets the hit counter to 0 and leaves the flag alone. So a
  new track is not stable after its second detection, is stable from the third consecutive
  one, and a track that lost a frame before that needs three consecutive matches.
\<close>

theorem stability_reached_on_third_hit:
  "\<not> is_stable (tracked_object_init d tid t0)
   \<and> consecutive_detections (tracked_object_init d tid t0) = 1
   \<and> (is_stable (track_after (tracked_object_init d tid t0) es) \<longleftrightarrow>
        (\<exists>k. k \<le> length es
           \<and> consecutive_detections (track_after (tracked_object_init d tid t0) (take k es)) \<ge> 3))
   \<and> (is_stable (track_after (tracked_object_init d tid t0) es) \<longrightarrow>
        is_stable (track_after (tracked_object_init d tid t0) (es @ es')))
   \<and> is_stable (miss_frame t) = is_stable t
   \<and> consecutive_detections (miss_frame t) = 0
   \<and> \<not> is_stable (track_after (tracked_object_init d tid t0) [Hit d1 t1])
   \<and> is_stable (track_after (tracked_object_init d tid t0) [Hit d1 t1, Hit d2 t2])
   \<and> is_stable (track_after (tracked_object_init d tid t0) [Hit d1 t1, Hit d2 t2, Miss])
   \<and> consecutive_detections
        (track_after (tracked_object_init d tid t0) [Hit d1 t1, Hit d2 t2, Miss]) = 0
   \<and> \<not> is_stable (track_after (tracked_object_init d tid t0) [Hit d1 t1, Miss, Hit d2 t2, Hit d3 t3])
   \<and> is_stable (track_after (tracked_object_init d tid t0)
                   [Hit d1 t1, Miss, Hit d2 t2, Hit d3 t3, Hit d4 t4])"
proof -
  let ?t = "tracked_object_init d tid t0"
  have m: "min_stable_frames ?t = 3" and s: "\<not> is_stable ?t" and c: "consecutive_detections ?t = 1"
    by (simp_all add: tracked_object_init_def)
  have reach: "is_stable (track_after ?t es) \<longleftrightarrow>
        (\<exists>k. k \<le> length es \<and> consecutive_detections (track_after ?t (take k es)) \<ge> 3)"
  proof -
    have "is_stable (track_after ?t es) \<longleftrightarrow>
       (\<exists>k. 1 \<le> k \<and> k \<le> length es \<and> consecutive_detections (track_after ?t (take k es)) \<ge> 3)"
      using stable_iff_reached[of ?t es] m s by simp
    also have "\<dots> \<longleftrightarrow> (\<exists>k. k \<le> length es \<and> consecutive_detections (track_after ?t (take k es)) \<ge> 3)"
    proof
      assume "\<exists>k. 1 \<le> k \<and> k \<le> length es \<and> consecutive_detections (track_after ?t (take k es)) \<ge> 3"
      then show "\<exists>k. k \<le> length es \<and> consecutive_detections (track_after ?t (take k es)) \<ge> 3"
        by blast
    next
      assume "\<exists>k. k \<le> length es \<and> consecutive_detections (track_after ?t (take k es)) \<ge> 3"
      then obtain k where k: "k \<le> length es" "consecutive_detections (track_after ?t (take k es)) \<ge> 3"
        by blast
      with c have "k \<noteq> 0" by (cases k) auto
      with k show "\<exists>k. 1 \<le> k \<and> k \<le> length es \<and> consecutive_detections (track_after ?t (take k es)) \<ge> 3"
        by (intro exI[of _ k]) simp
    qed
    finally show ?thesis .
  qed
  have keep: "is_stable (track_after ?t es) \<longrightarrow> is_stable (track_after ?t (es @ es'))"
    by (simp add: track_after_append track_after_keeps_stable)
  have ex: "\<not> is_stable (track_after ?t [Hit d1 t1])"
       "is_stable (track_after ?t [Hit d1 t1, Hit d2 t2])"
       "is_stable (track_after ?t [Hit d1 t1, Hit d2 t2, Miss])"
       "consecutive_detections (track_after ?t [Hit d1 t1, Hit d2 t2, Miss]) = 0"
       "\<not> is_stable (track_after ?t [Hit d1 t1, Miss, Hit d2 t2, Hit d3 t3])"
       "is_stable (track_after ?t [Hit d1 t1, Miss, Hit d2 t2, Hit d3 t3, Hit d4 t4])"
    by (simp_all add: update_is_stable update_consecutive miss_is_stable miss_consecutive m s c)
  show ?thesis
    using s c reach keep ex by (simp add: miss_is_stable miss_consecutive)
qed

theorem stability_reached_on_third_hit_witness:
  "\<not> is_stable (track_after (tracked_object_init person_box 1 1000) [Hit person_box 1001])
   \<and> is_stable (track_after (tracked_object_init person_box 1 1000)
                   [Hit person_box 1001, Hit person_box 1002])
   \<and> is_stable (track_after (tracked_object_init person_box 1 1000)
                   ([Hit person_box 1001, Hit person_box 1002] @ [Miss, Miss]))"
  using stability_reached_on_third_hit[where d = person_box and tid = 1 and ?t0.0 = 1000
      and es = "[Hit person_box 1001, Hit person_box 1002]" and es' = "[Miss, Miss]"
      and t = stable_track
      and ?d1.0 = person_box and ?t1.0 = 1001 and ?d2.0 = person_box and ?t2.0 = 1002
      and ?d3.0 = person_box and ?t3.0 = 1003 and ?d4.0 = person_box and ?t4.0 = 1004]
  by blast

text \<open>
  Through the tracker: a person seen in three consecutive frames is not reported after the
  first and the second, and is reported, as track 1, after the third.
\<close>

lemma tracker_reports_on_third_frame:
  "fst (object_tracker_update object_tracker_init [person_2m] 1000) = []
   \<and> fst (object_tracker_update
            (run_frames object_tracker_init [([person_2m], 1000)]) [person_2m] (10001/10)) = []
   \<and> map det_track_id
        (fst (object_tracker_update
               (run_frames object_tracker_init [([person_2m], 1000), ([person_2m], 10001/10)])
               [person_2m] (10002/10))) = [Some 1]"
  by (simp add: example_eval tracker_eval)

text \<open>
  Claim C2, as the code has it. The tracker's distance throttle admits an alert only for a
  stable track with a recorded distance, and then exactly when the last distance alert lies
  at least half the base interval back for an average distance below 3 m, the base interval
  for one below 6 m, and twice the base interval otherwise. With the default base interval of
  5 seconds, the one \<open>get_objects_for_alerts\<close> uses, these are 2.5, 5 and 10 seconds. After an
  accepted query for a track closer than 3 m, a second query \<open>dt\<close> seconds later is accepted
  exactly when \<open>dt\<close> is at least 2.5.
\<close>

theorem should_distance_alert_schedule:
  "(fst (should_distance_alert t b now) \<longleftrightarrow>
      is_stable t \<and> distances t \<noteq> []
      \<and> now - last_distance_alert t
          \<ge> (if avg_distance_of t < 3 then b / 2 else if avg_distance_of t < 6 then b else b * 2))
   \<and> distance_interval d default_distance_alert_interval
       = (if d < 3 then 5/2 else if d < 6 then 5 else 10)
   \<and> (fst (should_distance_alert t default_distance_alert_interval now) \<and> avg_distance_of t < 3 \<longrightarrow>
        (fst (should_distance_alert
               (snd (should_distance_alert t default_distance_alert_interval now))
               default_distance_alert_interval (now + dt)) \<longleftrightarrow> dt \<ge> 5/2))"
proof (intro conjI impI)
  show "fst (should_distance_alert t b now) \<longleftrightarrow>
      is_stable t \<and> distances t \<noteq> []
      \<and> now - last_distance_alert t
          \<ge> (if avg_distance_of t < 3 then b / 2 else if avg_distance_of t < 6 then b else b * 2)"
    by (simp add: should_distance_alert_accept distance_interval_def)
  show "distance_interval d default_distance_alert_interval
       = (if d < 3 then 5/2 else if d < 6 then 5 else 10)"
    by (simp add: distance_interval_def default_distance_alert_interval_def)
next
  assume a: "fst (should_distance_alert t default_distance_alert_interval now) \<and> avg_distance_of t < 3"
  then show "fst (should_distance_alert
               (snd (should_distance_alert t default_distance_alert_interval now))
               default_distance_alert_interval (now + dt)) \<longleftrightarrow> dt \<ge> 5/2"
    by (simp add: should_distance_alert_second distance_interval_def
          default_distance_alert_interval_def)
qed

theorem should_distance_alert_schedule_witness:
  "fst (should_distance_alert stable_track default_distance_alert_interval 2000)
   \<and> avg_distance_of stable_track < 3
   \<and> \<not> fst (should_distance_alert
            (snd (should_distance_alert stable_track default_distance_alert_interval 2000))
            default_distance_alert_interval (2000 + 24/10))
   \<and> fst (should_distance_alert
            (snd (should_distance_alert stable_track default_distance_alert_interval 2000))
            default_distance_alert_interval (2000 + 29/10))
   \<and> fst (should_distance_alert
            (snd (should_distance_alert stable_track default_distance_alert_interval 2000))
            default_distance_alert_interval (2000 + 31/10))"
  using should_distance_alert_schedule[of stable_track default_distance_alert_interval 2000 0 "24/10"]
    should_distance_alert_schedule[of stable_track default_distance_alert_interval 2000 0 "29/10"]
    should_distance_alert_schedule[of stable_track default_distance_alert_interval 2000 0 "31/10"]
  by (simp add: example_eval avg_distance_of_def distance_interval_def
        default_distance_alert_interval_def should_distance_alert_def)

text \<open>
  The claim as stated fails: two queries of the distance throttle for one track at 2.0 m,
  2.9 seconds apart, are both accepted.
\<close>

theorem should_distance_alert_two_accepts_counterexample:
  "avg_distance_of stable_track = 2
   \<and> fst (should_distance_alert stable_track default_distance_alert_interval 2000)
   \<and> fst (should_distance_alert
            (snd (should_distance_alert stable_track default_distance_alert_interval 2000))
            default_distance_alert_interval (2000 + 29/10))"
  by (simp add: example_eval avg_distance_of_def distance_interval_def
        default_distance_alert_interval_def should_distance_alert_def)

text \<open>
  The schedule of 3, 6 and 10 seconds is that of the runner's own gate; there two queries at
  2.0 m that are 2.9 seconds apart give one alert, and 3.1 seconds apart give two.
\<close>

lemma runner_gate_schedule:
  "fst (runner_gate m tid distance now) \<longleftrightarrow>
     now - (case m tid of Some l \<Rightarrow> l | None \<Rightarrow> 0)
       \<ge> (if distance < 3 then 3 else if distance < 6 then 6 else 10)"
  by (simp add: runner_gate_def continuous_alert_interval_def Let_def)

lemma runner_gate_scenario:
  "fst (runner_gate Map.empty 1 2 2000)
   \<and> \<not> fst (runner_gate (snd (runner_gate Map.empty 1 2 2000)) 1 2 (2000 + 29/10))
   \<and> fst (runner_gate (snd (runner_gate Map.empty 1 2 2000)) 1 2 (2000 + 31/10))"
  by (simp add: runner_gate_def continuous_alert_interval_def Let_def)

text \<open>
  Through \<open>get_objects_for_alerts\<close> the distance throttle is reached only when the general
  throttle (\<open>ALERT_INTERVAL\<close>, 10 seconds) has accepted: a second call 3.1 seconds after the
  first reports nothing.
\<close>

lemma get_objects_for_alerts_first:
  "map det_should_distance_alert (fst (get_objects_for_alerts default_config seen_thrice 2000))
     = [Some True]"
  by (simp add: get_objects_for_alerts_def seen_thrice_table example_eval should_alert_def
      should_distance_alert_def default_config_def get_current_detection_def Let_def
      default_distance_alert_interval_def distance_interval_def)

lemma get_objects_for_alerts_second:
  "fst (get_objects_for_alerts default_config
          (snd (get_objects_for_alerts default_config seen_thrice 2000)) (2000 + 31/10)) = []"
  by (simp add: get_objects_for_alerts_def seen_thrice_table example_eval should_alert_def
      should_distance_alert_def default_config_def get_current_detection_def Let_def
      default_distance_alert_interval_def distance_interval_def)





lemma create_track_next: "next_track_id (create_track ds now tr i) = next_track_id tr + 1"
  by (simp add: create_track_def)










section \<open>Verified properties of the zone navigation\<close>

lemma py_int_nonneg: "0 \<le> x \<Longrightarrow> py_int x = \<lfloor>x\<rfloor>"
  by (simp add: py_int_def)

lemma zone_boundaries_chain:
  assumes "0 \<le> w"
  shows "x_min (calculate_zone_boundaries w h Left_zone) = 0"
    and "x_max (calculate_zone_boundaries w h Left_zone) = x_min (calculate_zone_boundaries w h Center_zone)"
    and "x_max (calculate_zone_boundaries w h Center_zone) = x_min (calculate_zone_boundaries w h Right_zone)"
    and "x_max (calculate_zone_boundaries w h Right_zone) = w"
    and "0 \<le> x_max (calculate_zone_boundaries w h Left_zone)"
    and "x_max (calculate_zone_boundaries w h Left_zone) \<le> x_max (calculate_zone_boundaries w h Center_zone)"
    and "x_max (calculate_zone_boundaries w h Center_zone) \<le> w"
    and "y_min (calculate_zone_boundaries w h z) = 0"
    and "y_max (calculate_zone_boundaries w h z) = h"
proof -
  have a: "0 \<le> real_of_int w * (33/100)" "0 \<le> real_of_int w * (67/100)" using assms by simp_all
  have le: "real_of_int w * (33/100) \<le> real_of_int w * (67/100)" using assms by simp
  have le2: "real_of_int w * (67/100) \<le> real_of_int w" using assms by simp
  show "x_min (calculate_zone_boundaries w h Left_zone) = 0"
    "x_max (calculate_zone_boundaries w h Left_zone) = x_min (calculate_zone_boundaries w h Center_zone)"
    "x_max (calculate_zone_boundaries w h Center_zone) = x_min (calculate_zone_boundaries w h Right_zone)"
    "x_max (calculate_zone_boundaries w h Right_zone) = w"
    by (simp_all add: calculate_zone_boundaries_def Let_def)
  show "0 \<le> x_max (calculate_zone_boundaries w h Left_zone)"
    using a by (simp add: calculate_zone_boundaries_def Let_def py_int_nonneg)
  show "x_max (calculate_zone_boundaries w h Left_zone) \<le> x_max (calculate_zone_boundaries w h Center_zone)"
    using a le by (simp add: calculate_zone_boundaries_def Let_def py_int_nonneg floor_mono)
  show "x_max (calculate_zone_boundaries w h Center_zone) \<le> w"
    using a le2 floor_mono[OF le2] by (simp add: calculate_zone_boundaries_def Let_def py_int_nonneg)
  show "y_min (calculate_zone_boundaries w h z) = 0" "y_max (calculate_zone_boundaries w h z) = h"
    by (cases z; simp add: calculate_zone_boundaries_def Let_def)+
qed

lemma center_rule:
  "det_center d = (cx, cy) \<Longrightarrow> x_min zb \<le> cx \<Longrightarrow> cx \<le> x_max zb \<Longrightarrow> y_min zb \<le> cy \<Longrightarrow> cy \<le> y_max zb
     \<Longrightarrow> is_object_in_zone d zb"
  by (simp add: is_object_in_zone_def split: prod.splits)

lemma overlap_small:
  fixes x1 x2 y1 y2 :: int
  assumes "x1 < x2" "y1 < y2" and out: "(x1 + x2) div 2 < xmin \<or> xmax < (x1 + x2) div 2"
  shows "2 * (max 0 (min x2 xmax - max x1 xmin) * max 0 (min y2 ymax - max y1 ymin))
           \<le> (x2 - x1) * (y2 - y1)"
proof -
  let ?ox = "max 0 (min x2 xmax - max x1 xmin)"
  let ?oy = "max 0 (min y2 ymax - max y1 ymin)"
  have oy: "0 \<le> ?oy" "?oy \<le> y2 - y1" using assms(2) by auto
  have ox: "0 \<le> ?ox" by simp
  have ox2: "2 * ?ox \<le> x2 - x1"
  proof -
    from out have "x1 + x2 < 2 * xmin \<or> 2 * xmax + 2 \<le> x1 + x2" by linarith
    then show ?thesis using assms(1) by (auto simp add: max_def min_def)
  qed
  have "2 * (?ox * ?oy) = (2 * ?ox) * ?oy" by simp
  also have "\<dots> \<le> (x2 - x1) * ?oy" using ox2 oy(1) by (rule mult_right_mono)
  also have "\<dots> \<le> (x2 - x1) * (y2 - y1)" using oy(2) assms(1) by (intro mult_left_mono) auto
  finally show ?thesis .
qed

lemma outside_rule:
  assumes "det_bbox d = (x1, y1, x2, y2)" "det_center d = ((x1 + x2) div 2, cy)"
    and "x1 < x2" "y1 < y2"
    and "(x1 + x2) div 2 < x_min zb \<or> x_max zb < (x1 + x2) div 2"
  shows "\<not> is_object_in_zone d zb"
proof -
  have pos: "0 < (x2 - x1) * (y2 - y1)" using assms(3,4) by simp
  have small: "2 * (max 0 (min x2 (x_max zb) - max x1 (x_min zb))
                    * max 0 (min y2 (y_max zb) - max y1 (y_min zb)))
           \<le> (x2 - x1) * (y2 - y1)"
    using assms(3,4,5) by (rule overlap_small)
  have "\<not> (real_of_int (max 0 (min x2 (x_max zb) - max x1 (x_min zb))
                          * max 0 (min y2 (y_max zb) - max y1 (y_min zb)))
           / real_of_int ((x2 - x1) * (y2 - y1)) > 1/2)"
  proof -
    have "real_of_int (2 * (max 0 (min x2 (x_max zb) - max x1 (x_min zb))
                            * max 0 (min y2 (y_max zb) - max y1 (y_min zb))))
        \<le> real_of_int ((x2 - x1) * (y2 - y1))"
      using small by (simp only: of_int_le_iff)
    moreover have "0 < real_of_int ((x2 - x1) * (y2 - y1))"
      using pos by (simp only: of_int_0_less_iff)
    ultimately show ?thesis by (simp add: field_simps)
  qed
  then show ?thesis
    using assms(1,2,5) pos by (auto simp add: is_object_in_zone_def Let_def)
qed

text \<open>
  Claim C5, as the code has it. For a detection whose centre lies in the frame: the zones are
  the closed column ranges from 0 to \<open>L\<close>, from \<open>L\<close> to \<open>R\<close> and from \<open>R\<close> to the width, with
  \<open>L = int(0.33 w) \<le> R = int(0.67 w)\<close>, so they leave no gap and share the columns \<open>L\<close> and
  \<open>R\<close>; the detection is a member of at least one zone; when its centre column is \<open>L\<close> it is
  a member of the left and the centre zone, when it is \<open>R\<close> of the centre and the right
  zone; and when it is neither and the centre is the midpoint of a well-formed box, as the
  detector computes it, the detection is a member of exactly one zone.
\<close>

theorem zones_chain_and_membership:
  assumes c: "det_center d = (cx, cy)"
    and fr: "0 \<le> cx" "cx \<le> w" "0 \<le> cy" "cy \<le> h"
  shows "x_min (calculate_zone_boundaries w h Left_zone) = 0
     \<and> x_max (calculate_zone_boundaries w h Left_zone) = x_min (calculate_zone_boundaries w h Center_zone)
     \<and> x_max (calculate_zone_boundaries w h Center_zone) = x_min (calculate_zone_boundaries w h Right_zone)
     \<and> x_max (calculate_zone_boundaries w h Right_zone) = w
     \<and> x_min (calculate_zone_boundaries w h Center_zone) \<le> x_max (calculate_zone_boundaries w h Center_zone)
     \<and> (\<exists>z. is_object_in_zone d (calculate_zone_boundaries w h z))
     \<and> (cx = x_min (calculate_zone_boundaries w h Center_zone) \<longrightarrow>
           is_object_in_zone d (calculate_zone_boundaries w h Left_zone)
           \<and> is_object_in_zone d (calculate_zone_boundaries w h Center_zone))
     \<and> (cx = x_max (calculate_zone_boundaries w h Center_zone) \<longrightarrow>
           is_object_in_zone d (calculate_zone_boundaries w h Center_zone)
           \<and> is_object_in_zone d (calculate_zone_boundaries w h Right_zone))
     \<and> (cx \<noteq> x_min (calculate_zone_boundaries w h Center_zone)
        \<and> cx \<noteq> x_max (calculate_zone_boundaries w h Center_zone)
        \<and> det_bbox d = (x1, y1, x2, y2) \<and> x1 < x2 \<and> y1 < y2 \<and> cx = (x1 + x2) div 2 \<longrightarrow>
           (\<exists>!z. is_object_in_zone d (calculate_zone_boundaries w h z)))"
proof -
  let ?zb = "calculate_zone_boundaries w h"
  from fr have w: "0 \<le> w" by simp
  note ch = zone_boundaries_chain[OF w, of h]
  let ?L = "x_min (?zb Center_zone)" and ?R = "x_max (?zb Center_zone)"
  have LR: "0 \<le> ?L" "?L \<le> ?R" "?R \<le> w" using ch(2,5,6,7) by simp_all
  have y: "\<And>z. y_min (?zb z) = 0 \<and> y_max (?zb z) = h" using ch(8,9) by simp
  have inL: "cx \<le> ?L \<Longrightarrow> is_object_in_zone d (?zb Left_zone)"
    using c fr ch(1,2) y by (intro center_rule[of d cx cy]) simp_all
  have inC: "?L \<le> cx \<Longrightarrow> cx \<le> ?R \<Longrightarrow> is_object_in_zone d (?zb Center_zone)"
    using c fr y by (intro center_rule[of d cx cy]) simp_all
  have inR: "?R \<le> cx \<Longrightarrow> is_object_in_zone d (?zb Right_zone)"
    using c fr ch(3,4) y by (intro center_rule[of d cx cy]) simp_all
  have some: "\<exists>z. is_object_in_zone d (?zb z)"
  proof -
    consider "cx \<le> ?L" | "?L \<le> cx \<and> cx \<le> ?R" | "?R \<le> cx" by linarith
    then show ?thesis using inL inC inR by cases blast+
  qed
  have uniq: "\<exists>!z. is_object_in_zone d (?zb z)"
    if h: "cx \<noteq> ?L" "cx \<noteq> ?R" "det_bbox d = (x1, y1, x2, y2)" "x1 < x2" "y1 < y2" "cx = (x1 + x2) div 2"
  proof -
    have c': "det_center d = ((x1 + x2) div 2, cy)" using c h(6) by simp
    have out: "\<And>zb. (x1 + x2) div 2 < x_min zb \<or> x_max zb < (x1 + x2) div 2 \<Longrightarrow> \<not> is_object_in_zone d zb"
      using outside_rule[OF h(3) c' h(4,5)] by blast
    consider (l) "cx < ?L" | (m) "?L < cx \<and> cx < ?R" | (r) "?R < cx" using h(1,2) by linarith
    then show ?thesis
    proof cases
      case l
      have a: "is_object_in_zone d (?zb Left_zone)" using l inL by simp
      have b: "\<not> is_object_in_zone d (?zb Center_zone)" using l h(6) by (intro out) simp
      have cc: "\<not> is_object_in_zone d (?zb Right_zone)" using l LR h(6) ch(3) by (intro out) simp
      show ?thesis
      proof (rule ex1I[of _ Left_zone])
        show "is_object_in_zone d (?zb Left_zone)" by (rule a)
        fix z assume "is_object_in_zone d (?zb z)"
        then show "z = Left_zone" using b cc by (cases z) auto
      qed
    next
      case m
      have a: "is_object_in_zone d (?zb Center_zone)" using m inC by simp
      have b: "\<not> is_object_in_zone d (?zb Left_zone)" using m h(6) ch(2) by (intro out) simp
      have cc: "\<not> is_object_in_zone d (?zb Right_zone)" using m h(6) ch(3) by (intro out) simp
      show ?thesis
      proof (rule ex1I[of _ Center_zone])
        show "is_object_in_zone d (?zb Center_zone)" by (rule a)
        fix z assume "is_object_in_zone d (?zb z)"
        then show "z = Center_zone" using b cc by (cases z) auto
      qed
    next
      case r
      have a: "is_object_in_zone d (?zb Right_zone)" using r inR by simp
      have b: "\<not> is_object_in_zone d (?zb Left_zone)" using r LR h(6) ch(2) by (intro out) simp
      have cc: "\<not> is_object_in_zone d (?zb Center_zone)" using r h(6) by (intro out) simp
      show ?thesis
      proof (rule ex1I[of _ Right_zone])
        show "is_object_in_zone d (?zb Right_zone)" by (rule a)
        fix z assume "is_object_in_zone d (?zb z)"
        then show "z = Right_zone" using b cc by (cases z) auto
      qed
    qed
  qed
  show ?thesis
    using ch(1,2,3,4) LR(2) some inL inC inR uniq LR by (intro conjI impI) simp_all
qed

text \<open>
  The claim as stated fails: a detection whose centre is on column 211 of a frame 640 wide is
  a member of the left zone and of the centre zone.
\<close>

theorem boundary_center_in_two_zones_counterexample:
  "det_center edge_box = (211, 240)
   \<and> is_object_in_zone edge_box (calculate_zone_boundaries 640 480 Left_zone)
   \<and> is_object_in_zone edge_box (calculate_zone_boundaries 640 480 Center_zone)"
  by (simp add: edge_box_def make_detection_def is_object_in_zone_def
        calculate_zone_boundaries_def py_int_def Let_def)

theorem zones_chain_and_membership_witness:
  "det_center person_box = (320, 240)
   \<and> x_min (calculate_zone_boundaries 640 480 Center_zone) = 211
   \<and> x_max (calculate_zone_boundaries 640 480 Center_zone) = 428
   \<and> (\<exists>!z. is_object_in_zone person_box (calculate_zone_boundaries 640 480 z))
   \<and> is_object_in_zone person_box (calculate_zone_boundaries 640 480 Center_zone)
   \<and> is_object_in_zone edge_box (calculate_zone_boundaries 640 480 Left_zone)
   \<and> is_object_in_zone edge_box (calculate_zone_boundaries 640 480 Center_zone)"
proof -
  have c: "det_center person_box = (320, 240)" "det_bbox person_box = (270, 190, 370, 290)"
    by (simp_all add: person_box_def make_detection_def)
  have e: "det_center edge_box = (211, 240)"
    by (simp add: edge_box_def make_detection_def)
  have b: "x_min (calculate_zone_boundaries 640 480 Center_zone) = 211"
    "x_max (calculate_zone_boundaries 640 480 Center_zone) = 428"
    by (simp_all add: calculate_zone_boundaries_def py_int_def Let_def)
  have p: "is_object_in_zone person_box (calculate_zone_boundaries 640 480 Center_zone)"
    by (simp add: person_box_def make_detection_def is_object_in_zone_def
        calculate_zone_boundaries_def py_int_def Let_def)
  show ?thesis
    using zones_chain_and_membership[OF c(1), of 640 480 270 190 370 290] zones_chain_and_membership[OF e, of 640 480 0 0 0 0]
    by (simp add: c b p)
qed

lemma decision_not_forward:
  "\<not> passable (za Center_zone) \<Longrightarrow> direction (make_navigation_decision za) \<noteq> Some ''forward''"
  by (simp add: make_navigation_decision_def Let_def)

lemma decision_stop:
  "\<not> passable (za Center_zone) \<Longrightarrow> blocked (za Center_zone) \<Longrightarrow>
   \<not> passable (za Left_zone) \<Longrightarrow> \<not> passable (za Right_zone) \<Longrightarrow>
     direction (make_navigation_decision za) = Some ''stop''
     \<and> confidence (make_navigation_decision za) = 9/10"
  by (simp add: make_navigation_decision_def Let_def)

lemma decision_none:
  "\<not> passable (za Center_zone) \<Longrightarrow> \<not> blocked (za Center_zone) \<Longrightarrow>
     direction (make_navigation_decision za) = None
     \<and> confidence (make_navigation_decision za) = 0"
  by (simp add: make_navigation_decision_def Let_def)

lemma analyze_zone_single:
  assumes "det_urgency d = Some u"
  shows "\<exists>z. analyze_zone k cfg [d] zb fs = Inr z
           \<and> (is_object_in_zone d zb \<and> 3 \<le> u \<longrightarrow> blocked z \<and> \<not> passable z)"
  using assms
  by (simp add: analyze_zone_def risk_score_def is_zone_blocked_def Let_def)

lemma analyze_regions_single:
  assumes u: "det_urgency d = Some u" "3 \<le> u"
    and inz: "is_object_in_zone d (calculate_zone_boundaries w h Center_zone)"
  shows "\<exists>r. analyze_regions k cfg [d] (h, w, c) = Inr r
           \<and> center_blocked r \<and> blocked (zones r Center_zone)
           \<and> \<not> passable (zones r Center_zone)
           \<and> recommended_direction r \<noteq> Some ''forward''"
proof -
  obtain zl where zl: "analyze_zone k cfg [d] (calculate_zone_boundaries w h Left_zone) (h, w, c) = Inr zl"
    using analyze_zone_single[OF u(1)] by blast
  obtain zr where zr: "analyze_zone k cfg [d] (calculate_zone_boundaries w h Right_zone) (h, w, c) = Inr zr"
    using analyze_zone_single[OF u(1)] by blast
  obtain zc where zc: "analyze_zone k cfg [d] (calculate_zone_boundaries w h Center_zone) (h, w, c) = Inr zc"
    "blocked zc" "\<not> passable zc"
    using analyze_zone_single[OF u(1), of k cfg "calculate_zone_boundaries w h Center_zone" "(h, w, c)"]
      u(2) inz
    by blast
  let ?za = "\<lambda>z. case z of Left_zone \<Rightarrow> zl | Center_zone \<Rightarrow> zc | Right_zone \<Rightarrow> zr"
  have nf: "direction (make_navigation_decision ?za) \<noteq> Some ''forward''"
    using zc(3) by (intro decision_not_forward) simp
  show ?thesis
    using zl zr zc nf by (simp add: analyze_regions_def Let_def)
qed

lemma frame_center_in_center_zone:
  assumes "0 \<le> w" "0 \<le> h" "det_center d = (w div 2, h div 2)"
  shows "is_object_in_zone d (calculate_zone_boundaries w h Center_zone)"
proof -
  have a: "0 \<le> real_of_int w * (33/100)" "0 \<le> real_of_int w * (67/100)" using assms by simp_all
  have half: "\<lfloor>real_of_int w / 2\<rfloor> = w div 2"
    using floor_divide_of_int_eq[of w 2, where ?'a = real] by simp
  have "real_of_int w * (33/100) \<le> real_of_int w / 2" using assms by simp
  then have "\<lfloor>real_of_int w * (33/100)\<rfloor> \<le> \<lfloor>real_of_int w / 2\<rfloor>" by (rule floor_mono)
  then have l: "\<lfloor>real_of_int w * (33/100)\<rfloor> \<le> w div 2"
    by (simp only: half)
  have "real_of_int w / 2 \<le> real_of_int w * (67/100)" using assms by simp
  then have "\<lfloor>real_of_int w / 2\<rfloor> \<le> \<lfloor>real_of_int w * (67/100)\<rfloor>" by (rule floor_mono)
  then have r: "w div 2 \<le> \<lfloor>real_of_int w * (67/100)\<rfloor>"
    by (simp only: half)
  have hh: "0 \<le> h div 2" "h div 2 \<le> h" using assms(2) by simp_all
  show ?thesis
    using assms(3) l r hh a
    by (simp add: is_object_in_zone_def calculate_zone_boundaries_def py_int_def Let_def)
qed

text \<open>
  Claim C1, as the code has it. When the centre zone is not passable the decision is never
  forward. When it is moreover blocked and neither the left nor the right zone is passable,
  the decision is stop with confidence 0.9. When it is not passable and not blocked (its risk
  is medium or high without any blocking rule firing), the decision has no direction
  (\<open>None\<close>) and confidence 0, whatever the other zones are. A single object of urgency 3
  whose centre is the centre of the frame makes the centre zone blocked and the decision of
  \<open>analyze_regions\<close> not forward.
\<close>

theorem navigation_decision_when_center_not_passable:
  "(\<not> passable (za Center_zone) \<longrightarrow>
      direction (make_navigation_decision za) \<noteq> Some ''forward'')
   \<and> (\<not> passable (za Center_zone) \<and> blocked (za Center_zone)
       \<and> \<not> passable (za Left_zone) \<and> \<not> passable (za Right_zone) \<longrightarrow>
         direction (make_navigation_decision za) = Some ''stop''
         \<and> confidence (make_navigation_decision za) = 9/10)
   \<and> (\<not> passable (za Center_zone) \<and> \<not> blocked (za Center_zone) \<longrightarrow>
         direction (make_navigation_decision za) = None
         \<and> confidence (make_navigation_decision za) = 0)
   \<and> (0 \<le> w \<and> 0 \<le> h \<and> det_center d = (w div 2, h div 2) \<and> det_urgency d = Some 3 \<longrightarrow>
         (\<exists>r. analyze_regions k cfg [d] (h, w, c) = Inr r
            \<and> center_blocked r \<and> blocked (zones r Center_zone)
            \<and> \<not> passable (zones r Center_zone)
            \<and> recommended_direction r \<noteq> Some ''forward''))"
proof (intro conjI impI)
  assume "\<not> passable (za Center_zone)"
  then show "direction (make_navigation_decision za) \<noteq> Some ''forward''"
    by (rule decision_not_forward)
next
  assume a: "\<not> passable (za Center_zone) \<and> blocked (za Center_zone)
       \<and> \<not> passable (za Left_zone) \<and> \<not> passable (za Right_zone)"
  then show "direction (make_navigation_decision za) = Some ''stop''"
    "confidence (make_navigation_decision za) = 9/10"
    using decision_stop[of za] by simp_all
next
  assume a: "\<not> passable (za Center_zone) \<and> \<not> blocked (za Center_zone)"
  then show "direction (make_navigation_decision za) = None"
    "confidence (make_navigation_decision za) = 0"
    using decision_none[of za] by simp_all
next
  assume a: "0 \<le> w \<and> 0 \<le> h \<and> det_center d = (w div 2, h div 2) \<and> det_urgency d = Some 3"
  then have "is_object_in_zone d (calculate_zone_boundaries w h Center_zone)"
    by (intro frame_center_in_center_zone) simp_all
  with a show "\<exists>r. analyze_regions k cfg [d] (h, w, c) = Inr r
            \<and> center_blocked r \<and> blocked (zones r Center_zone)
            \<and> \<not> passable (zones r Center_zone)
            \<and> recommended_direction r \<noteq> Some ''forward''"
    by (intro analyze_regions_single[of d 3]) simp_all
qed

text \<open>
  The claim as stated fails: in the crowded scene no zone is passable, the centre zone is not
  blocked, and the decision is no direction with confidence 0, not stop.
\<close>

theorem crowded_scene_gives_no_direction_counterexample:
  "map_sum id decision_summary (analyze_regions Numpy_int default_config crowded_scene (480, 640, 3))
     = Inr (False, False, False, False, None, 0)"
  by (simp add: crowded_scene_def make_detection_def analyze_regions_def analyze_zone_def
      calculate_zone_boundaries_def py_int_def is_object_in_zone_def risk_score_def true_divide_def
      is_zone_blocked_def default_config_def density_high_def density_medium_def density_low_def
      make_navigation_decision_def decision_summary_def Let_def)

lemmas navigation_eval =
  zones_of_def analyze_regions_def analyze_zone_def calculate_zone_boundaries_def py_int_def
  is_object_in_zone_def risk_score_def true_divide_def is_zone_blocked_def default_config_def density_high_def
  density_medium_def density_low_def make_detection_def Let_def

lemma wall_scene_zones:
  "blocked (zones_of wall_scene Center_zone) \<and> \<not> passable (zones_of wall_scene Center_zone)
   \<and> \<not> passable (zones_of wall_scene Left_zone) \<and> \<not> passable (zones_of wall_scene Right_zone)"
  by (simp add: wall_scene_def navigation_eval)

lemma crowded_scene_zones:
  "\<not> blocked (zones_of crowded_scene Center_zone)
   \<and> \<not> passable (zones_of crowded_scene Center_zone)"
  by (simp add: crowded_scene_def navigation_eval)

theorem navigation_decision_when_center_not_passable_witness:
  "blocked (zones_of wall_scene Center_zone) \<and> \<not> passable (zones_of wall_scene Center_zone)
   \<and> \<not> passable (zones_of wall_scene Left_zone) \<and> \<not> passable (zones_of wall_scene Right_zone)
   \<and> direction (make_navigation_decision (zones_of wall_scene)) = Some ''stop''
   \<and> confidence (make_navigation_decision (zones_of wall_scene)) = 9/10
   \<and> \<not> blocked (zones_of crowded_scene Center_zone)
   \<and> \<not> passable (zones_of crowded_scene Center_zone)
   \<and> direction (make_navigation_decision (zones_of crowded_scene)) = None
   \<and> confidence (make_navigation_decision (zones_of crowded_scene)) = 0
   \<and> det_center very_close_person = (640 div 2, 480 div 2)
   \<and> (\<exists>r. analyze_regions Numpy_int default_config [very_close_person] (480, 640, 3) = Inr r
          \<and> center_blocked r \<and> recommended_direction r \<noteq> Some ''forward'')"
proof -
  have c: "det_center very_close_person = (640 div 2, 480 div 2)"
    "det_urgency very_close_person = Some 3"
    by (simp_all add: very_close_person_def person_near_def make_detection_def)
  show ?thesis
    using navigation_decision_when_center_not_passable
            [of "zones_of wall_scene" 640 480 very_close_person Numpy_int default_config 3]
      navigation_decision_when_center_not_passable
            [of "zones_of crowded_scene" 640 480 very_close_person Numpy_int default_config 3]
      wall_scene_zones crowded_scene_zones c
    by simp blast
qed

text \<open>In the frame with a person filling each zone, \<open>analyze_regions\<close> itself says stop.\<close>

lemma wall_scene_stop:
  "map_sum id decision_summary (analyze_regions Numpy_int default_config wall_scene (480, 640, 3))
     = Inr (False, False, True, False, Some ''stop'', 9/10)"
  by (simp add: wall_scene_def navigation_eval make_navigation_decision_def decision_summary_def)

section \<open>Verified properties of the alert scheduler\<close>







end
